theory Spec2Isabelle
  imports Main
begin

section \<open>Text values\<close>

text \<open>
  The service (\<^verbatim>\<open>candidate_solution.py\<close>) keeps its data in an SQLite database and
  manipulates it with SQL statements and a little Python. A column value of the
  \<^verbatim>\<open>name\<close> columns is either NULL or a text; texts are modelled as \<open>string\<close>, NULL as
  \<open>None\<close>. A text is the list of the bytes of its UTF-8 encoding, which is how SQLite
  stores it. SQLite's \<^verbatim>\<open>UPPER\<close>, \<^verbatim>\<open>LOWER\<close> and \<^verbatim>\<open>COLLATE NOCASE\<close> fold the 26 ASCII
  letters only and leave every other byte alone.
\<close>

definition is_lower :: "char \<Rightarrow> bool" where
  "is_lower c = (97 \<le> (of_char c :: nat) \<and> (of_char c :: nat) \<le> 122)"

definition is_upper :: "char \<Rightarrow> bool" where
  "is_upper c = (65 \<le> (of_char c :: nat) \<and> (of_char c :: nat) \<le> 90)"

definition upper_c :: "char \<Rightarrow> char" where
  "upper_c c = (if is_lower c then char_of ((of_char c :: nat) - 32) else c)"

definition lower_c :: "char \<Rightarrow> char" where
  "lower_c c = (if is_upper c then char_of ((of_char c :: nat) + 32) else c)"

text \<open>SQL \<^verbatim>\<open>UPPER(x)\<close> and \<^verbatim>\<open>LOWER(x)\<close> on a text.\<close>

definition UPPER :: "string \<Rightarrow> string" where
  "UPPER s = map upper_c s"

definition LOWER :: "string \<Rightarrow> string" where
  "LOWER s = map lower_c s"

text \<open>
  The expression \<^verbatim>\<open>substr(UPPER(name), 1, 1) || LOWER(substr(name, 2))\<close> of the type
  normalisation (lines 93-99 and 112): the first character of the upper-cased text,
  followed by the lower-cased rest. Cutting after the first byte gives the same text as
  cutting after the first character: the later bytes of a character outside ASCII are
  left alone by both foldings.
\<close>

definition sql_title :: "string \<Rightarrow> string" where
  "sql_title s = take 1 (UPPER s) @ LOWER (drop 1 s)"

text \<open>
  Python's \<^verbatim>\<open>s.capitalize()\<close>. On a text of ASCII characters it upper-cases the first
  character and lower-cases the others, which is \<open>ascii_capitalize\<close>. On any other text
  it follows the case mappings of the Unicode character database: it may change the
  length of the text and need not be idempotent. That database is not part of the
  source; the function it induces on texts is the parameter \<open>unicode_capitalize\<close> of
  \<open>capitalize\<close> and of everything that calls it.
\<close>

definition ascii :: "string \<Rightarrow> bool" where
  "ascii s = list_all (\<lambda>c. (of_char c :: nat) < 128) s"

fun ascii_capitalize :: "string \<Rightarrow> string" where
  "ascii_capitalize [] = []"
| "ascii_capitalize (c # cs) = upper_c c # map lower_c cs"

definition capitalize :: "(string \<Rightarrow> string) \<Rightarrow> string \<Rightarrow> string" where
  "capitalize unicode_capitalize s =
     (if ascii s then ascii_capitalize s else unicode_capitalize s)"

text \<open>
  Python's \<^verbatim>\<open>s.split('-')\<close> and \<^verbatim>\<open>'-'.join(parts)\<close>. The hyphen is an ASCII character and
  no byte of the encoding of another character equals it, so splitting the bytes at the
  hyphens is splitting the characters.
\<close>

fun split :: "char \<Rightarrow> string \<Rightarrow> string list" where
  "split d [] = [[]]"
| "split d (c # cs) =
     (if c = d then [] # split d cs
      else (case split d cs of
              [] \<Rightarrow> [[c]]
            | p # ps \<Rightarrow> (c # p) # ps))"

fun join :: "char \<Rightarrow> string list \<Rightarrow> string" where
  "join d [] = []"
| "join d [p] = p"
| "join d (p # q # ps) = p @ d # join d (q # ps)"

text \<open>
  Line 139: \<^verbatim>\<open>'-'.join(part.capitalize() for part in ability_name.split('-'))\<close>.
\<close>

definition title_parts :: "(string \<Rightarrow> string) \<Rightarrow> string \<Rightarrow> string" where
  "title_parts unicode_capitalize ability_name =
     join (CHR ''-'') (map (capitalize unicode_capitalize) (split (CHR ''-'') ability_name))"

section \<open>The five tables\<close>

text \<open>
  Rows of \<^verbatim>\<open>types\<close>, \<^verbatim>\<open>abilities\<close> and \<^verbatim>\<open>trainers\<close> have an \<^verbatim>\<open>id\<close> and a \<^verbatim>\<open>name\<close>;
  \<^verbatim>\<open>pokemon\<close> rows add two type references, \<^verbatim>\<open>trainer_pokemon_abilities\<close> rows hold
  three references. A table is the list of its rows in scan order (ascending rowid).
  References are plain integers or NULL: nothing forces them to point at a row.
\<close>

record named_row =
  nid :: int
  nname :: "string option"

record pokemon_row =
  pid :: int
  pname :: "string option"
  type1_id :: "int option"
  type2_id :: "int option"

record tpa_row =
  jid :: int
  trainer_id :: "int option"
  pokemon_id :: "int option"
  ability_id :: "int option"

record store =
  types :: "named_row list"
  abilities :: "named_row list"
  pokemon :: "pokemon_row list"
  trainers :: "named_row list"
  trainer_pokemon_abilities :: "tpa_row list"

text \<open>
  The schema itself is not part of the source file. The identifiers are the tables'
  primary keys, so within one table no two rows have the same \<^verbatim>\<open>id\<close>.
\<close>

definition wf_store :: "store \<Rightarrow> bool" where
  "wf_store s =
     (distinct (map nid (types s)) \<and> distinct (map nid (abilities s))
      \<and> distinct (map pid (pokemon s)) \<and> distinct (map nid (trainers s))
      \<and> distinct (map jid (trainer_pokemon_abilities s)))"

section \<open>The statements of \<^verbatim>\<open>clean_database\<close>\<close>

text \<open>
  \<^verbatim>\<open>DELETE FROM t WHERE id NOT IN (SELECT MIN(id) FROM t GROUP BY key)\<close>:
  \<open>group_min\<close> is \<^verbatim>\<open>MIN(id)\<close> of the group of a row (\<^verbatim>\<open>GROUP BY\<close> compares with the
  binary collation and puts all NULLs in one group, as equality on \<open>option\<close> does),
  \<open>min_ids\<close> the result of the subquery, \<open>delete_not_min\<close> the table after the delete.
\<close>

definition group_min :: "('r \<Rightarrow> int) \<Rightarrow> ('r \<Rightarrow> 'k) \<Rightarrow> 'r list \<Rightarrow> 'r \<Rightarrow> int" where
  "group_min idf key rows r = fold min (map idf (filter (\<lambda>r'. key r' = key r) rows)) (idf r)"

definition min_ids :: "('r \<Rightarrow> int) \<Rightarrow> ('r \<Rightarrow> 'k) \<Rightarrow> 'r list \<Rightarrow> int list" where
  "min_ids idf key rows = map (group_min idf key rows) rows"

definition delete_not_min :: "('r \<Rightarrow> int) \<Rightarrow> ('r \<Rightarrow> 'k) \<Rightarrow> 'r list \<Rightarrow> 'r list" where
  "delete_not_min idf key rows = filter (\<lambda>r. idf r \<in> set (min_ids idf key rows)) rows"

definition pokemon_key :: "pokemon_row \<Rightarrow> string option \<times> int option \<times> int option" where
  "pokemon_key r = (pname r, type1_id r, type2_id r)"

definition tpa_key :: "tpa_row \<Rightarrow> int option \<times> int option \<times> int option" where
  "tpa_key r = (trainer_id r, pokemon_id r, ability_id r)"

text \<open>Lines 54-88, in the order of the source.\<close>

definition dedup_abilities :: "store \<Rightarrow> store" where
  "dedup_abilities s = s\<lparr>abilities := delete_not_min nid nname (abilities s)\<rparr>"

definition dedup_pokemon :: "store \<Rightarrow> store" where
  "dedup_pokemon s = s\<lparr>pokemon := delete_not_min pid pokemon_key (pokemon s)\<rparr>"

definition dedup_tpa :: "store \<Rightarrow> store" where
  "dedup_tpa s = s\<lparr>trainer_pokemon_abilities :=
     delete_not_min jid tpa_key (trainer_pokemon_abilities s)\<rparr>"

definition dedup_trainers :: "store \<Rightarrow> store" where
  "dedup_trainers s = s\<lparr>trainers := delete_not_min nid nname (trainers s)\<rparr>"

definition dedup_types :: "store \<Rightarrow> store" where
  "dedup_types s = s\<lparr>types := delete_not_min nid nname (types s)\<rparr>"

text \<open>Lines 89-91: \<^verbatim>\<open>DELETE FROM abilities WHERE name = 'Remove this ability'\<close>.\<close>

definition delete_sentinel :: "store \<Rightarrow> store" where
  "delete_sentinel s =
     s\<lparr>abilities := filter (\<lambda>r. nname r \<noteq> Some ''Remove this ability'') (abilities s)\<rparr>"

text \<open>Lines 93-99: every non-NULL type name is title-cased.\<close>

definition title_types :: "store \<Rightarrow> store" where
  "title_types s =
     s\<lparr>types := map (\<lambda>r. r\<lparr>nname := (case nname r of Some n \<Rightarrow> Some (sql_title n)
                                                  | None \<Rightarrow> None)\<rparr>) (types s)\<rparr>"

text \<open>Lines 100-108: the correction table of ability names.\<close>

definition fix_ability :: "string option \<Rightarrow> string option" where
  "fix_ability n =
     (if n = Some ''static'' then Some ''Static''
      else if n = Some ''gras'' then Some ''Grass''
      else if n = Some ''overgrow'' then Some ''Overgrow''
      else if n = Some ''Torrent'' then Some ''Torrent''
      else n)"

definition fix_abilities :: "store \<Rightarrow> store" where
  "fix_abilities s = s\<lparr>abilities := map (\<lambda>r. r\<lparr>nname := fix_ability (nname r)\<rparr>) (abilities s)\<rparr>"

text \<open>
  Lines 109-115. For a row with a non-NULL \<^verbatim>\<open>type2_id\<close> the new value is the scalar
  subquery: the \<^verbatim>\<open>id\<close> of the first type row whose name equals the title-cased name of
  the type row the reference points at. A scalar subquery with no row, and every
  comparison with NULL, gives NULL.
\<close>

definition type_name_of :: "named_row list \<Rightarrow> int \<Rightarrow> string option" where
  "type_name_of ts i =
     (case filter (\<lambda>t. nid t = i) ts of [] \<Rightarrow> None | t # _ \<Rightarrow> nname t)"

definition type_id_named :: "named_row list \<Rightarrow> string \<Rightarrow> int option" where
  "type_id_named ts n =
     (case filter (\<lambda>t. nname t = Some n) ts of [] \<Rightarrow> None | t # _ \<Rightarrow> Some (nid t))"

definition repoint :: "named_row list \<Rightarrow> int option \<Rightarrow> int option" where
  "repoint ts ref =
     (case ref of
        None \<Rightarrow> None
      | Some i \<Rightarrow> (case type_name_of ts i of
                     None \<Rightarrow> None
                   | Some n \<Rightarrow> type_id_named ts (sql_title n)))"

definition repoint_type2 :: "store \<Rightarrow> store" where
  "repoint_type2 s = s\<lparr>pokemon := map (\<lambda>r. r\<lparr>type2_id := repoint (types s) (type2_id r)\<rparr>) (pokemon s)\<rparr>"

text \<open>Lines 116-124: the trainer correction, then the trainers without a name go.\<close>

definition fix_trainer :: "string option \<Rightarrow> string option" where
  "fix_trainer n = (if n = Some ''misty'' then Some ''Misty'' else n)"

definition fix_trainers :: "store \<Rightarrow> store" where
  "fix_trainers s = s\<lparr>trainers := map (\<lambda>r. r\<lparr>nname := fix_trainer (nname r)\<rparr>) (trainers s)\<rparr>"

definition delete_nameless_trainers :: "store \<Rightarrow> store" where
  "delete_nameless_trainers s =
     s\<lparr>trainers := filter (\<lambda>r. \<not> (nname r = Some [] \<or> nname r = None)) (trainers s)\<rparr>"

text \<open>Lines 125-133: the correction table of creature names.\<close>

definition fix_pokemon_name :: "string option \<Rightarrow> string option" where
  "fix_pokemon_name n =
     (if n = Some ''Pikuchu'' then Some ''Pikachu''
      else if n = Some ''Charmanderr'' then Some ''Charmander''
      else if n = Some ''Bulbasuar'' then Some ''Bulbasaur''
      else if n = Some ''RATtata'' then Some ''Rattata''
      else n)"

definition fix_pokemon :: "store \<Rightarrow> store" where
  "fix_pokemon s = s\<lparr>pokemon := map (\<lambda>r. r\<lparr>pname := fix_pokemon_name (pname r)\<rparr>) (pokemon s)\<rparr>"

text \<open>
  Lines 135-141: the rows with a name are fetched once; then, for each fetched row whose
  title-cased name differs from the fetched one,
  \<^verbatim>\<open>UPDATE abilities SET name = ? WHERE id = ?\<close> is executed.
\<close>

definition update_ability_name :: "int \<Rightarrow> string \<Rightarrow> store \<Rightarrow> store" where
  "update_ability_name i n s =
     s\<lparr>abilities := map (\<lambda>r. if nid r = i then r\<lparr>nname := Some n\<rparr> else r) (abilities s)\<rparr>"

definition fetch_named_abilities :: "store \<Rightarrow> (int \<times> string) list" where
  "fetch_named_abilities s =
     concat (map (\<lambda>r. case nname r of None \<Rightarrow> [] | Some n \<Rightarrow> [(nid r, n)]) (abilities s))"

definition ability_updates ::
  "(string \<Rightarrow> string) \<Rightarrow> (int \<times> string) list \<Rightarrow> (store \<Rightarrow> store) list" where
  "ability_updates unicode_capitalize fetched =
     concat (map (\<lambda>(ability_id, ability_name).
                    if title_parts unicode_capitalize ability_name \<noteq> ability_name
                    then [update_ability_name ability_id
                            (title_parts unicode_capitalize ability_name)]
                    else []) fetched)"

text \<open>
  The statements of lines 54-133 in order, and the whole implementation block when no
  statement fails.
\<close>

definition static_statements :: "(store \<Rightarrow> store) list" where
  "static_statements =
     [dedup_abilities, dedup_pokemon, dedup_tpa, dedup_trainers, dedup_types,
      delete_sentinel, title_types, fix_abilities, repoint_type2, fix_trainers,
      delete_nameless_trainers, fix_pokemon]"

definition run_all :: "(store \<Rightarrow> store) list \<Rightarrow> store \<Rightarrow> store" where
  "run_all stmts s = fold (\<lambda>f t. f t) stmts s"

definition clean_steps :: "(string \<Rightarrow> string) \<Rightarrow> store \<Rightarrow> store" where
  "clean_steps unicode_capitalize s =
     (let s1 = run_all static_statements s
      in run_all (ability_updates unicode_capitalize (fetch_named_abilities s1)) s1)"

section \<open>The transaction of \<^verbatim>\<open>clean_database\<close>\<close>

text \<open>
  A connection holds the committed database and, while a transaction is open, the
  uncommitted working copy that this connection sees. \<^verbatim>\<open>execute\<close> of a writing
  statement opens a transaction if none is open; \<^verbatim>\<open>commit\<close> makes the working copy the
  database; \<^verbatim>\<open>rollback\<close> drops it.
\<close>

record connection =
  committed :: store
  working :: "store option"

definition view :: "connection \<Rightarrow> store" where
  "view c = (case working c of None \<Rightarrow> committed c | Some w \<Rightarrow> w)"

definition execute :: "(store \<Rightarrow> store) \<Rightarrow> connection \<Rightarrow> connection" where
  "execute stmt c = c\<lparr>working := Some (stmt (view c))\<rparr>"

definition commit :: "connection \<Rightarrow> connection" where
  "commit c = \<lparr>committed = view c, working = None\<rparr>"

definition rollback :: "connection \<Rightarrow> connection" where
  "rollback c = c\<lparr>working := None\<rparr>"

text \<open>
  Any call into the driver may raise \<^verbatim>\<open>sqlite3.Error\<close> (a closed connection, a locked or
  corrupt file, a full disk, a violated constraint of the schema). The calls of one
  cleaning pass are \<^verbatim>\<open>conn.cursor()\<close> (line 49, before the \<^verbatim>\<open>try\<close>), the calls of
  \<^verbatim>\<open>cursor.execute\<close> numbered from 0 in the order they are made, \<^verbatim>\<open>conn.commit()\<close> and
  \<^verbatim>\<open>conn.rollback()\<close>; \<open>fails x\<close> says that the call \<open>x\<close> raises.
\<close>

datatype call = Cursor | Execute nat | Commit | Rollback

text \<open>
  \<open>run_statements\<close> executes a list of statements, the first one being the call
  \<open>Execute k\<close>. It returns the number of the raising call and the connection as the
  calls before it have left it, or the next call number and the connection.
\<close>

fun run_statements ::
  "(call \<Rightarrow> bool) \<Rightarrow> nat \<Rightarrow> (store \<Rightarrow> store) list \<Rightarrow> connection
   \<Rightarrow> nat \<times> connection + nat \<times> connection" where
  "run_statements fails k [] c = Inr (k, c)"
| "run_statements fails k (stmt # stmts) c =
     (if fails (Execute k) then Inl (k, c)
      else run_statements fails (Suc k) stmts (execute stmt c))"

text \<open>
  The \<^verbatim>\<open>try\<close> block of lines 52-143: the twelve statements, the \<^verbatim>\<open>SELECT\<close> of line 135,
  the updates of the loop, \<^verbatim>\<open>conn.commit()\<close>. When a call raises, the result is that
  call and the connection at that moment, with the changes of the calls before it in
  its open transaction.
\<close>

definition try_block ::
  "(string \<Rightarrow> string) \<Rightarrow> (call \<Rightarrow> bool) \<Rightarrow> connection \<Rightarrow> call \<times> connection + connection" where
  "try_block unicode_capitalize fails c =
     (case run_statements fails 0 static_statements c of
        Inl (k, c') \<Rightarrow> Inl (Execute k, c')
      | Inr (k, c1) \<Rightarrow>
          if fails (Execute k) then Inl (Execute k, c1)
          else (case run_statements fails (Suc k)
                       (ability_updates unicode_capitalize (fetch_named_abilities (view c1))) c1 of
                  Inl (k', c') \<Rightarrow> Inl (Execute k', c')
                | Inr (k', c2) \<Rightarrow>
                    if fails Commit then Inl (Commit, c2) else Inr (commit c2)))"

text \<open>
  What \<^verbatim>\<open>clean_database\<close> does for its caller: it returns \<^verbatim>\<open>None\<close> (the function has no
  \<^verbatim>\<open>return\<close> with a value) or an exception leaves it, which can only be the
  \<^verbatim>\<open>sqlite3.Error\<close> of a call outside the \<^verbatim>\<open>try\<close> block or inside the handler. The lines
  it prints are kept: a fixed text, or a text followed by the error of a call
  (\<^verbatim>\<open>f"...: {e}"\<close>, line 147). \<open>clean_database\<close> takes the connection object, or \<open>None\<close>
  for \<^verbatim>\<open>not conn\<close> (lines 45-47), and gives the connection as it is afterwards.
\<close>

datatype outcome = Returns_None | Raises call

datatype line = Plain string | With_cause string call

record cleaning_outcome =
  result :: outcome
  printed :: "line list"
  conn_after :: "connection option"

definition clean_database ::
  "(string \<Rightarrow> string) \<Rightarrow> (call \<Rightarrow> bool) \<Rightarrow> connection option \<Rightarrow> cleaning_outcome" where
  "clean_database unicode_capitalize fails conn =
     (case conn of
        None \<Rightarrow>
          \<lparr>result = Returns_None,
           printed = [Plain ''Error: Invalid database connection provided for cleaning.''],
           conn_after = None\<rparr>
      | Some c \<Rightarrow>
          if fails Cursor
          then \<lparr>result = Raises Cursor, printed = [], conn_after = Some c\<rparr>
          else (case try_block unicode_capitalize fails c of
                  Inr c' \<Rightarrow>
                    \<lparr>result = Returns_None,
                     printed = [Plain ''Starting database cleaning...'',
                                Plain ''Database cleaning finished and changes committed.''],
                     conn_after = Some c'\<rparr>
                | Inl (x, c') \<Rightarrow>
                    if fails Rollback
                    then \<lparr>result = Raises Rollback,
                          printed = [Plain ''Starting database cleaning...'',
                                     With_cause ''An error occurred during database cleaning: '' x],
                          conn_after = Some c'\<rparr>
                    else \<lparr>result = Returns_None,
                          printed = [Plain ''Starting database cleaning...'',
                                     With_cause ''An error occurred during database cleaning: '' x],
                          conn_after = Some (rollback c')\<rparr>))"

text \<open>
  The number of \<^verbatim>\<open>cursor.execute\<close> calls of a pass over the store \<open>s\<close> in which no call
  raises: twelve statements, one \<^verbatim>\<open>SELECT\<close>, and the updates of the loop.
\<close>

definition execute_calls :: "(string \<Rightarrow> string) \<Rightarrow> store \<Rightarrow> nat" where
  "execute_calls unicode_capitalize s =
     13 + length (ability_updates unicode_capitalize
                    (fetch_named_abilities (run_all static_statements s)))"

section \<open>The query layer\<close>

text \<open>
  \<^verbatim>\<open>x = ? COLLATE NOCASE\<close>: equal after folding the ASCII upper-case letters to lower
  case; a NULL column never compares equal.
\<close>

definition nocase_eq :: "string option \<Rightarrow> string \<Rightarrow> bool" where
  "nocase_eq col arg = (case col of None \<Rightarrow> False | Some n \<Rightarrow> LOWER n = LOWER arg)"

text \<open>
  The four \<^verbatim>\<open>SELECT\<close> statements (lines 182-187, 205-210, 227-232 and 249-254), as
  nested loops over the tables in the order of their \<^verbatim>\<open>FROM\<close> clauses. A selected
  \<^verbatim>\<open>name\<close> may be NULL, so a result is a list of \<open>string option\<close>.
\<close>

definition select_pokemon_by_ability :: "store \<Rightarrow> string \<Rightarrow> string option list" where
  "select_pokemon_by_ability s ability_name =
     [pname p. p \<leftarrow> pokemon s,
               tpa \<leftarrow> trainer_pokemon_abilities s, Some (pid p) = pokemon_id tpa,
               a \<leftarrow> abilities s, ability_id tpa = Some (nid a),
               nocase_eq (nname a) ability_name]"

text \<open>
  \<^verbatim>\<open>LEFT JOIN types t2 ON p.type2_id = t2.id\<close>: the matching type rows, or one row of
  NULLs when there is none.
\<close>

definition left_join_types :: "named_row list \<Rightarrow> int option \<Rightarrow> string option list" where
  "left_join_types ts ref =
     (case filter (\<lambda>t2. ref = Some (nid t2)) ts of
        [] \<Rightarrow> [None]
      | m # ms \<Rightarrow> map nname (m # ms))"

definition select_pokemon_by_type :: "store \<Rightarrow> string \<Rightarrow> string option list" where
  "select_pokemon_by_type s type_name =
     [pname p. p \<leftarrow> pokemon s,
               t1 \<leftarrow> types s, type1_id p = Some (nid t1),
               t2_name \<leftarrow> left_join_types (types s) (type2_id p),
               nocase_eq (nname t1) type_name \<or> nocase_eq t2_name type_name]"

text \<open>\<^verbatim>\<open>SELECT DISTINCT\<close> keeps the first occurrence of every value.\<close>

definition sql_distinct :: "'a list \<Rightarrow> 'a list" where
  "sql_distinct xs = rev (remdups (rev xs))"

definition select_trainers_by_pokemon :: "store \<Rightarrow> string \<Rightarrow> string option list" where
  "select_trainers_by_pokemon s pokemon_name =
     sql_distinct
       [nname t. t \<leftarrow> trainers s,
                 tpa \<leftarrow> trainer_pokemon_abilities s, Some (nid t) = trainer_id tpa,
                 p \<leftarrow> pokemon s, pokemon_id tpa = Some (pid p),
                 pname p = Some pokemon_name]"

definition select_abilities_by_pokemon :: "store \<Rightarrow> string \<Rightarrow> string option list" where
  "select_abilities_by_pokemon s pokemon_name =
     [nname ab. ab \<leftarrow> abilities s,
                tpa \<leftarrow> trainer_pokemon_abilities s, Some (nid ab) = ability_id tpa,
                p \<leftarrow> pokemon s, pokemon_id tpa = Some (pid p),
                nocase_eq (pname p) pokemon_name]"

text \<open>
  \<^verbatim>\<open>connect_db\<close> (lines 14-33): \<^verbatim>\<open>None\<close> when the database file does not exist or
  \<^verbatim>\<open>sqlite3.connect\<close> raises, the connection otherwise.
\<close>

datatype db_file = Missing | Unopenable | Database store

fun connect_db :: "db_file \<Rightarrow> store option" where
  "connect_db Missing = None"
| "connect_db Unopenable = None"
| "connect_db (Database s) = Some s"

text \<open>
  Every handler runs its statements inside
  \<^verbatim>\<open>with conn: with conn.cursor() as cursor: ...\<close>. Entering the inner \<^verbatim>\<open>with\<close> needs a
  cursor object that implements the context-manager protocol. The cursor class of the
  \<^verbatim>\<open>sqlite3\<close> module, which line 2 imports and \<^verbatim>\<open>connect_db\<close> uses, does not: the
  statement raises \<^verbatim>\<open>TypeError\<close> (\<^verbatim>\<open>AttributeError\<close> before Python 3.11), which is not a
  \<^verbatim>\<open>sqlite3.Error\<close>. The cursor class is not part of the source file, so the handlers
  take its kind as a parameter: \<open>Sqlite3_Cursor\<close> is the one the code gets,
  \<open>Context_Cursor\<close> a cursor that can be entered.
\<close>

datatype cursor_kind = Sqlite3_Cursor | Context_Cursor

datatype error = HTTPException nat string | TypeError

text \<open>
  The read handlers (lines 170-256). An exception other than \<^verbatim>\<open>HTTPException\<close> leaves
  the handler as it is.
\<close>

definition read_handler ::
  "(store \<Rightarrow> string \<Rightarrow> string option list) \<Rightarrow> cursor_kind \<Rightarrow> db_file \<Rightarrow> string
   \<Rightarrow> error + string option list" where
  "read_handler select cur file arg =
     (case connect_db file of
        None \<Rightarrow> Inl (HTTPException 500 ''Database connection error.'')
      | Some conn \<Rightarrow>
          (case cur of
             Sqlite3_Cursor \<Rightarrow> Inl TypeError
           | Context_Cursor \<Rightarrow>
               (let results = select conn arg
                in Inr (if results \<noteq> [] then map (\<lambda>row. row) results else []))))"

definition get_pokemon_by_ability :: "cursor_kind \<Rightarrow> db_file \<Rightarrow> string \<Rightarrow> error + string option list" where
  "get_pokemon_by_ability = read_handler select_pokemon_by_ability"

definition get_pokemon_by_type :: "cursor_kind \<Rightarrow> db_file \<Rightarrow> string \<Rightarrow> error + string option list" where
  "get_pokemon_by_type = read_handler select_pokemon_by_type"

definition get_trainers_by_pokemon :: "cursor_kind \<Rightarrow> db_file \<Rightarrow> string \<Rightarrow> error + string option list" where
  "get_trainers_by_pokemon = read_handler select_trainers_by_pokemon"

definition get_abilities_by_pokemon :: "cursor_kind \<Rightarrow> db_file \<Rightarrow> string \<Rightarrow> error + string option list" where
  "get_abilities_by_pokemon = read_handler select_abilities_by_pokemon"

section \<open>The ingestion operation\<close>

text \<open>
  The answer of the lookup service to \<^verbatim>\<open>requests.get\<close> (line 272): a response with
  status 200 and the names it carries, a response with another status, or no response
  at all (the call raises).
\<close>

record api_data =
  api_abilities :: "string list"
  api_types :: "string list"

datatype lookup_result = Status_200 api_data | Status_other | Request_failed

record response =
  message :: string
  inserted_ids :: "int list"

text \<open>
  \<^verbatim>\<open>cursor.lastrowid\<close> after an insert that leaves the \<^verbatim>\<open>id\<close> to the database: one more
  than the largest \<^verbatim>\<open>id\<close> in the table, 1 for an empty table.
\<close>

definition next_id :: "int list \<Rightarrow> int" where
  "next_id ids = (case ids of [] \<Rightarrow> 1 | i # others \<Rightarrow> fold max others i + 1)"

text \<open>\<^verbatim>\<open>get_or_create_type\<close>, lines 282-290.\<close>

definition get_or_create_type :: "string option \<Rightarrow> store \<Rightarrow> int option \<times> store" where
  "get_or_create_type type_name s =
     (case type_name of
        None \<Rightarrow> (None, s)
      | Some n \<Rightarrow>
          if n = [] then (None, s)
          else (case filter (\<lambda>t. nname t = Some n) (types s) of
                  row # _ \<Rightarrow> (Some (nid row), s)
                | [] \<Rightarrow>
                    (let lastrowid = next_id (map nid (types s))
                     in (Some lastrowid,
                         s\<lparr>types := types s @ [\<lparr>nid = lastrowid, nname = Some n\<rparr>]\<rparr>))))"

text \<open>
  \<^verbatim>\<open>INSERT OR IGNORE INTO abilities (name) VALUES (?)\<close> (line 314) skips the insert when
  it would violate a uniqueness constraint. Whether the schema declares
  \<^verbatim>\<open>abilities.name\<close> unique is not visible in the source file, so it is the parameter
  \<open>unique_names\<close>.
\<close>

definition insert_or_ignore_ability :: "bool \<Rightarrow> string \<Rightarrow> store \<Rightarrow> store" where
  "insert_or_ignore_ability unique_names ability s =
     (if unique_names \<and> Some ability \<in> set (map nname (abilities s)) then s
      else s\<lparr>abilities := abilities s @
               [\<lparr>nid = next_id (map nid (abilities s)), nname = Some ability\<rparr>]\<rparr>)"

text \<open>
  The loop of lines 313-322 over the ability names, carrying the store and
  \<^verbatim>\<open>inserted_ids\<close>. \<^verbatim>\<open>cursor.fetchone()[0]\<close> on an empty result raises \<^verbatim>\<open>TypeError\<close>,
  which line 327 turns into the status 500.
\<close>

fun add_abilities ::
  "bool \<Rightarrow> int \<Rightarrow> int \<Rightarrow> string list \<Rightarrow> store \<Rightarrow> int list \<Rightarrow> error + store \<times> int list" where
  "add_abilities unique_names trainer pokemon_id' [] s inserted = Inr (s, inserted)"
| "add_abilities unique_names trainer pokemon_id' (ability # rest) s inserted =
     (let s1 = insert_or_ignore_ability unique_names ability s
      in case filter (\<lambda>a. nname a = Some ability) (abilities s1) of
           [] \<Rightarrow> Inl (HTTPException 500 ''Internal server error.'')
         | a # _ \<Rightarrow>
             (if filter (\<lambda>r. trainer_id r = Some trainer \<and> pokemon_id r = Some pokemon_id'
                              \<and> ability_id r = Some (nid a)) (trainer_pokemon_abilities s1) = []
              then (let lastrowid = next_id (map jid (trainer_pokemon_abilities s1))
                    in add_abilities unique_names trainer pokemon_id' rest
                         (s1\<lparr>trainer_pokemon_abilities := trainer_pokemon_abilities s1 @
                               [\<lparr>jid = lastrowid, trainer_id = Some trainer,
                                 pokemon_id = Some pokemon_id', ability_id = Some (nid a)\<rparr>]\<rparr>)
                         (inserted @ [lastrowid]))
              else add_abilities unique_names trainer pokemon_id' rest s1 inserted))"

text \<open>
  The statements of lines 267-324, run on the store the cursor sees. The texts of the
  exceptions are written without the accent they have in the source. \<open>api\<close> is the
  lookup service; \<open>pick\<close> stands for the draw of \<^verbatim>\<open>ORDER BY RANDOM() LIMIT 1\<close> and
  selects the trainer row at position \<open>pick mod\<close> the number of trainers. The result is
  the exception that leaves the block, or the returned value and the store.
\<close>

definition ingest_statements ::
  "bool \<Rightarrow> (string \<Rightarrow> lookup_result) \<Rightarrow> nat \<Rightarrow> string \<Rightarrow> store \<Rightarrow> error + response \<times> store" where
  "ingest_statements unique_names api pick pokemon_name s =
     (if filter (\<lambda>p. pname p = Some pokemon_name) (pokemon s) \<noteq> []
      then Inl (HTTPException 400 ''Pokemon already exists in the database.'')
      else case api pokemon_name of
        Request_failed \<Rightarrow> Inl (HTTPException 500 ''Internal server error.'')
      | Status_other \<Rightarrow> Inl (HTTPException 404 ''Pokemon not found in PokeAPI.'')
      | Status_200 data \<Rightarrow>
          (let abilities' = api_abilities data;
               type1 = (if length (api_types data) > 0 then Some (api_types data ! 0) else None);
               type2 = (if length (api_types data) > 1 then Some (api_types data ! 1) else None);
               (type1_id', s1) = get_or_create_type type1 s;
               (type2_id', s2) = get_or_create_type type2 s1;
               (pokemon_id', s3) =
                  (case filter (\<lambda>p. pname p = Some pokemon_name) (pokemon s2) of
                     row # _ \<Rightarrow> (pid row, s2)
                   | [] \<Rightarrow>
                       (let lastrowid = next_id (map pid (pokemon s2))
                        in (lastrowid,
                            s2\<lparr>pokemon := pokemon s2 @
                                 [\<lparr>pid = lastrowid, pname = Some pokemon_name,
                                   type1_id = type1_id', type2_id = type2_id'\<rparr>]\<rparr>)))
           in if trainers s3 = []
              then Inl (HTTPException 400 ''No trainers available.'')
              else (case add_abilities unique_names
                           (nid (trainers s3 ! (pick mod length (trainers s3))))
                           pokemon_id' abilities' s3 [] of
                      Inl e \<Rightarrow> Inl e
                    | Inr (s4, inserted) \<Rightarrow>
                        Inr (\<lparr>message = ''Abilities for '' @ pokemon_name @ '' added successfully.'',
                              inserted_ids = inserted\<rparr>, s4))))"

text \<open>
  The handler \<^verbatim>\<open>add_trainer_pokemon_abilities\<close> (lines 258-329). \<^verbatim>\<open>with conn:\<close> commits
  when the block ends normally and rolls back when an exception leaves it; an
  \<^verbatim>\<open>HTTPException\<close> is re-raised, any other exception becomes the status 500. The
  result is the response or error of the request and the database file afterwards.
\<close>

definition add_trainer_pokemon_abilities ::
  "cursor_kind \<Rightarrow> bool \<Rightarrow> (string \<Rightarrow> lookup_result) \<Rightarrow> nat \<Rightarrow> db_file \<Rightarrow> string
   \<Rightarrow> (error + response) \<times> db_file" where
  "add_trainer_pokemon_abilities cur unique_names api pick file pokemon_name =
     (case connect_db file of
        None \<Rightarrow> (Inl (HTTPException 500 ''Database connection error.''), file)
      | Some conn \<Rightarrow>
          (case cur of
             Sqlite3_Cursor \<Rightarrow> (Inl (HTTPException 500 ''Internal server error.''), file)
           | Context_Cursor \<Rightarrow>
               (case ingest_statements unique_names api pick pokemon_name conn of
                  Inl e \<Rightarrow> (Inl e, file)
                | Inr (resp, conn') \<Rightarrow> (Inr resp, Database conn'))))"

section \<open>Vocabulary of the specification\<close>

text \<open>
  The invariants of the data model as the specification words them. A case-normalised
  name is the name with its ASCII letters folded to lower case.
\<close>

definition names_unique_nocase :: "named_row list \<Rightarrow> bool" where
  "names_unique_nocase rows = distinct (map (\<lambda>r. map_option LOWER (nname r)) rows)"

definition creature_keys_unique :: "store \<Rightarrow> bool" where
  "creature_keys_unique s = distinct (map pokemon_key (pokemon s))"

definition join_keys_unique :: "store \<Rightarrow> bool" where
  "join_keys_unique s = distinct (map tpa_key (trainer_pokemon_abilities s))"

definition type_names_canonical :: "store \<Rightarrow> bool" where
  "type_names_canonical s =
     (\<forall>r \<in> set (types s). case nname r of None \<Rightarrow> True | Some n \<Rightarrow> sql_title n = n)"

definition canonical_ability :: "string \<Rightarrow> bool" where
  "canonical_ability n =
     (join (CHR ''-'') (map ascii_capitalize (split (CHR ''-'') n)) = n)"

definition ability_names_canonical :: "store \<Rightarrow> bool" where
  "ability_names_canonical s =
     (\<forall>r \<in> set (abilities s). case nname r of None \<Rightarrow> True | Some n \<Rightarrow> canonical_ability n)"

definition trainer_names_nonempty :: "store \<Rightarrow> bool" where
  "trainer_names_nonempty s = (\<forall>r \<in> set (trainers s). nname r \<noteq> None \<and> nname r \<noteq> Some [])"

text \<open>All eight invariants of the data model together.\<close>

definition data_model_invariants :: "store \<Rightarrow> bool" where
  "data_model_invariants s =
     (names_unique_nocase (types s) \<and> names_unique_nocase (abilities s)
      \<and> names_unique_nocase (trainers s) \<and> creature_keys_unique s \<and> join_keys_unique s
      \<and> type_names_canonical s \<and> ability_names_canonical s \<and> trainer_names_nonempty s)"

text \<open>The names of a table are ASCII texts.\<close>

definition ascii_names :: "named_row list \<Rightarrow> bool" where
  "ascii_names rows =
     (\<forall>r \<in> set rows. case nname r of None \<Rightarrow> True | Some n \<Rightarrow> ascii n)"

text \<open>
  The two patterns of the casing property: \<^verbatim>\<open>^[A-Z][a-z]*$\<close> for a type name and
  \<^verbatim>\<open>^([A-Z][a-z]*)(-[A-Z][a-z]*)*$\<close> for an ability name. A text matches the second
  one exactly when each of its hyphen-separated segments matches the first.
\<close>

definition type_pattern :: "string \<Rightarrow> bool" where
  "type_pattern n = (case n of [] \<Rightarrow> False | c # cs \<Rightarrow> is_upper c \<and> list_all is_lower cs)"

definition ability_pattern :: "string \<Rightarrow> bool" where
  "ability_pattern n = list_all type_pattern (split (CHR ''-'') n)"

definition letters :: "string \<Rightarrow> bool" where
  "letters n = (n \<noteq> [] \<and> list_all (\<lambda>c. is_upper c \<or> is_lower c) n)"

text \<open>
  A join row is dangling when one of its references matches no row of the referenced
  table. \<open>without_row r s\<close> is the store \<open>s\<close> with the join row \<open>r\<close> taken out.
\<close>

definition no_trainer :: "store \<Rightarrow> tpa_row \<Rightarrow> bool" where
  "no_trainer s r = (\<forall>t \<in> set (trainers s). trainer_id r \<noteq> Some (nid t))"

definition no_pokemon :: "store \<Rightarrow> tpa_row \<Rightarrow> bool" where
  "no_pokemon s r = (\<forall>p \<in> set (pokemon s). pokemon_id r \<noteq> Some (pid p))"

definition no_ability :: "store \<Rightarrow> tpa_row \<Rightarrow> bool" where
  "no_ability s r = (\<forall>a \<in> set (abilities s). ability_id r \<noteq> Some (nid a))"

definition without_row :: "tpa_row \<Rightarrow> store \<Rightarrow> store" where
  "without_row r s =
     s\<lparr>trainer_pokemon_abilities := filter (\<lambda>x. x \<noteq> r) (trainer_pokemon_abilities s)\<rparr>"

section \<open>Example data\<close>

text \<open>
  A seed data set of the kind the cleaning pass is written for: every entity occurs
  twice, once in a spelling or casing that the pass normalises into the other. The
  second trainer row is referenced by a join row.
\<close>

definition seed_example :: store where
  "seed_example =
     \<lparr>types = [\<lparr>nid = 1, nname = Some ''fire''\<rparr>, \<lparr>nid = 2, nname = Some ''Fire''\<rparr>],
      abilities = [\<lparr>nid = 1, nname = Some ''static''\<rparr>, \<lparr>nid = 2, nname = Some ''Static''\<rparr>],
      pokemon = [\<lparr>pid = 1, pname = Some ''Pikuchu'', type1_id = Some 1, type2_id = None\<rparr>,
                 \<lparr>pid = 2, pname = Some ''Pikachu'', type1_id = Some 1, type2_id = None\<rparr>],
      trainers = [\<lparr>nid = 1, nname = Some ''misty''\<rparr>, \<lparr>nid = 2, nname = Some ''Misty''\<rparr>],
      trainer_pokemon_abilities =
        [\<lparr>jid = 1, trainer_id = Some 1, pokemon_id = Some 1, ability_id = Some 1\<rparr>]\<rparr>"

text \<open>
  A data set with exact duplicates only: the second trainer row and the second ability
  row are deleted by the pass, and the join rows 2 and 3 refer to them.
\<close>

definition duplicate_example :: store where
  "duplicate_example =
     \<lparr>types = [\<lparr>nid = 1, nname = Some ''Electric''\<rparr>],
      abilities = [\<lparr>nid = 1, nname = Some ''Static''\<rparr>, \<lparr>nid = 2, nname = Some ''Static''\<rparr>],
      pokemon = [\<lparr>pid = 1, pname = Some ''Pikachu'', type1_id = Some 1, type2_id = None\<rparr>],
      trainers = [\<lparr>nid = 1, nname = Some ''Ash''\<rparr>, \<lparr>nid = 2, nname = Some ''Ash''\<rparr>],
      trainer_pokemon_abilities =
        [\<lparr>jid = 1, trainer_id = Some 1, pokemon_id = Some 1, ability_id = Some 1\<rparr>,
         \<lparr>jid = 2, trainer_id = Some 2, pokemon_id = Some 1, ability_id = Some 1\<rparr>,
         \<lparr>jid = 3, trainer_id = Some 1, pokemon_id = Some 1, ability_id = Some 2\<rparr>]\<rparr>"

text \<open>A cleaned data set: one creature, its type, its ability and its trainer.\<close>

definition cleaned_example :: store where
  "cleaned_example =
     \<lparr>types = [\<lparr>nid = 1, nname = Some ''Electric''\<rparr>],
      abilities = [\<lparr>nid = 1, nname = Some ''Static''\<rparr>],
      pokemon = [\<lparr>pid = 1, pname = Some ''Pikachu'', type1_id = Some 1, type2_id = None\<rparr>],
      trainers = [\<lparr>nid = 1, nname = Some ''Ash''\<rparr>],
      trainer_pokemon_abilities =
        [\<lparr>jid = 1, trainer_id = Some 1, pokemon_id = Some 1, ability_id = Some 1\<rparr>]\<rparr>"

text \<open>
  A lookup service that knows one creature, \<^verbatim>\<open>raichu\<close>, with the abilities
  \<^verbatim>\<open>["static"]\<close> and the types \<^verbatim>\<open>["electric"]\<close>.
\<close>

definition raichu_api :: "string \<Rightarrow> lookup_result" where
  "raichu_api n =
     (if n = ''raichu''
      then Status_200 \<lparr>api_abilities = [''static''], api_types = [''electric'']\<rparr>
      else Status_other)"

text \<open>
  A data set for the casing: a type and an ability written in letters (and hyphens), a
  type and an ability with other characters, and a type and an ability without a name.
\<close>

definition casing_example :: store where
  "casing_example =
     \<lparr>types = [\<lparr>nid = 1, nname = Some ''wATER''\<rparr>, \<lparr>nid = 2, nname = Some ''???''\<rparr>,
               \<lparr>nid = 3, nname = None\<rparr>],
      abilities = [\<lparr>nid = 1, nname = Some ''solar-power''\<rparr>,
                   \<lparr>nid = 2, nname = Some ''lightning rod''\<rparr>,
                   \<lparr>nid = 3, nname = None\<rparr>],
      pokemon = [], trainers = [], trainer_pokemon_abilities = []\<rparr>"

text \<open>
  \<open>cleaned_example\<close> after the statements of the ingestion have run for \<^verbatim>\<open>raichu\<close>.
\<close>

definition cleaned_plus_raichu :: store where
  "cleaned_plus_raichu =
     \<lparr>types = [\<lparr>nid = 1, nname = Some ''Electric''\<rparr>, \<lparr>nid = 2, nname = Some ''electric''\<rparr>],
      abilities = [\<lparr>nid = 1, nname = Some ''Static''\<rparr>, \<lparr>nid = 2, nname = Some ''static''\<rparr>],
      pokemon = [\<lparr>pid = 1, pname = Some ''Pikachu'', type1_id = Some 1, type2_id = None\<rparr>,
                 \<lparr>pid = 2, pname = Some ''raichu'', type1_id = Some 2, type2_id = None\<rparr>],
      trainers = [\<lparr>nid = 1, nname = Some ''Ash''\<rparr>],
      trainer_pokemon_abilities =
        [\<lparr>jid = 1, trainer_id = Some 1, pokemon_id = Some 1, ability_id = Some 1\<rparr>,
         \<lparr>jid = 2, trainer_id = Some 1, pokemon_id = Some 2, ability_id = Some 2\<rparr>]\<rparr>"

text \<open>
  A seed whose second creature row and second ability row are exact duplicates, with a
  join row that refers to both of them.
\<close>

definition dangling_example :: store where
  "dangling_example =
     \<lparr>types = [\<lparr>nid = 1, nname = Some ''Electric''\<rparr>],
      abilities = [\<lparr>nid = 1, nname = Some ''Static''\<rparr>, \<lparr>nid = 2, nname = Some ''Static''\<rparr>],
      pokemon = [\<lparr>pid = 1, pname = Some ''Pikachu'', type1_id = Some 1, type2_id = None\<rparr>,
                 \<lparr>pid = 2, pname = Some ''Pikachu'', type1_id = Some 1, type2_id = None\<rparr>],
      trainers = [\<lparr>nid = 1, nname = Some ''Ash''\<rparr>],
      trainer_pokemon_abilities =
        [\<lparr>jid = 1, trainer_id = Some 1, pokemon_id = Some 1, ability_id = Some 1\<rparr>,
         \<lparr>jid = 2, trainer_id = Some 1, pokemon_id = Some 2, ability_id = Some 2\<rparr>]\<rparr>"

text \<open>
  The names of the examples are ASCII texts, for which \<open>capitalize\<close> does not consult its
  parameter. Where an example needs a value for the parameter, it is the function that
  returns its argument.
\<close>

definition no_unicode :: "string \<Rightarrow> string" where
  "no_unicode s = s"

section \<open>Join rows under cleaning\<close>

lemma tpa_update_ability_name [simp]:
  "trainer_pokemon_abilities (update_ability_name i n s) = trainer_pokemon_abilities s"
  by (simp add: update_ability_name_def)

lemma ability_updates_Cons:
  "ability_updates u ((i, n) # fetched)
   = (if title_parts u n \<noteq> n then [update_ability_name i (title_parts u n)] else [])
     @ ability_updates u fetched"
  by (simp add: ability_updates_def)

lemma tpa_run_ability_updates [simp]:
  "trainer_pokemon_abilities (run_all (ability_updates u fs) s) = trainer_pokemon_abilities s"
proof -
  have "trainer_pokemon_abilities (fold (\<lambda>f t. f t) (ability_updates u fs) s)
        = trainer_pokemon_abilities s"
  proof (induction fs arbitrary: s)
    case Nil
    show ?case by (simp add: ability_updates_def)
  next
    case (Cons f fs)
    obtain i n where f: "f = (i, n)" by (cases f)
    show ?case
      by (simp add: f ability_updates_Cons Cons.IH)
  qed
  then show ?thesis by (simp add: run_all_def)
qed

lemma tpa_static_statements:
  "trainer_pokemon_abilities (run_all static_statements s)
   = delete_not_min jid tpa_key (trainer_pokemon_abilities s)"
  by (simp add: run_all_def static_statements_def dedup_abilities_def dedup_pokemon_def
      dedup_tpa_def dedup_trainers_def dedup_types_def delete_sentinel_def title_types_def
      fix_abilities_def repoint_type2_def fix_trainers_def delete_nameless_trainers_def
      fix_pokemon_def)

lemma concat_map_filter_irrelevant:
  "(\<And>x. x \<in> set xs \<Longrightarrow> \<not> P x \<Longrightarrow> f x = []) \<Longrightarrow>
   concat (map f (filter P xs)) = concat (map f xs)"
  by (induction xs) auto

lemma tpa_clean_steps:
  "trainer_pokemon_abilities (clean_steps u s)
   = delete_not_min jid tpa_key (trainer_pokemon_abilities s)"
  by (simp add: clean_steps_def Let_def tpa_static_statements)

lemma min_row_kept:
  "r \<in> set rows \<Longrightarrow> idf r = group_min idf key rows r \<Longrightarrow> r \<in> set (delete_not_min idf key rows)"
  by (auto simp: delete_not_min_def min_ids_def)

lemma by_ability_without_row:
  "no_ability s r \<or> no_pokemon s r \<Longrightarrow>
   select_pokemon_by_ability (without_row r s) x = select_pokemon_by_ability s x"
  unfolding select_pokemon_by_ability_def without_row_def no_ability_def no_pokemon_def
  apply (simp cong: if_cong)
  apply (rule arg_cong[where f=concat])
  apply (rule map_cong[OF refl])
  apply (rule concat_map_filter_irrelevant)
  apply auto
  done

lemma abilities_by_pokemon_without_row:
  "no_ability s r \<or> no_pokemon s r \<Longrightarrow>
   select_abilities_by_pokemon (without_row r s) x = select_abilities_by_pokemon s x"
  unfolding select_abilities_by_pokemon_def without_row_def no_ability_def no_pokemon_def
  apply (simp cong: if_cong)
  apply (rule arg_cong[where f=concat])
  apply (rule map_cong[OF refl])
  apply (rule concat_map_filter_irrelevant)
  apply auto
  done

lemma trainers_by_pokemon_without_row:
  "no_trainer s r \<or> no_pokemon s r \<Longrightarrow>
   select_trainers_by_pokemon (without_row r s) x = select_trainers_by_pokemon s x"
  unfolding select_trainers_by_pokemon_def without_row_def no_trainer_def no_pokemon_def
  apply (simp cong: if_cong)
  apply (rule arg_cong[where f=sql_distinct])
  apply (rule arg_cong[where f=concat])
  apply (rule map_cong[OF refl])
  apply (rule concat_map_filter_irrelevant)
  apply auto
  done

text \<open>
  A read handler answers from the rows its statement selects and from nothing else, so
  two stores on which the statement selects the same rows get the same answer, whatever
  the cursor is.
\<close>

lemma read_handler_cong:
  "select s x = select t x \<Longrightarrow>
   read_handler select cur (Database s) x = read_handler select cur (Database t) x"
  by (cases cur) (simp_all add: read_handler_def Let_def)

text \<open>
  C10. The join table after the cleaning pass is the join table before it with the
  non-minimal rows of each \<^verbatim>\<open>(trainer_id, pokemon_id, ability_id)\<close> group deleted: no
  other statement touches it, whatever happens to the rows it refers to. So the lowest
  row of every group survives, dangling or not. A surviving row whose reference to a
  trainer, an ability or a creature matches no row is invisible where the query layer
  joins through that reference: it adds nothing to the rows selected by
  trainers-by-creature (for the trainer), by creatures-by-ability and
  abilities-by-creature (for the ability), by all three (for the creature), and the
  answers of the handlers are the same with the row and without it, for either kind of
  cursor.
\<close>

theorem join_rows_only_deduplicated:
  "trainer_pokemon_abilities (clean_steps u s)
     = delete_not_min jid tpa_key (trainer_pokemon_abilities s)
   \<and> (\<forall>r \<in> set (trainer_pokemon_abilities s).
         jid r = group_min jid tpa_key (trainer_pokemon_abilities s) r
         \<longrightarrow> r \<in> set (trainer_pokemon_abilities (clean_steps u s)))
   \<and> (\<forall>r x. no_trainer (clean_steps u s) r \<or> no_pokemon (clean_steps u s) r
         \<longrightarrow> select_trainers_by_pokemon (without_row r (clean_steps u s)) x
             = select_trainers_by_pokemon (clean_steps u s) x)
   \<and> (\<forall>r x. no_ability (clean_steps u s) r \<or> no_pokemon (clean_steps u s) r
         \<longrightarrow> select_pokemon_by_ability (without_row r (clean_steps u s)) x
               = select_pokemon_by_ability (clean_steps u s) x
             \<and> select_abilities_by_pokemon (without_row r (clean_steps u s)) x
               = select_abilities_by_pokemon (clean_steps u s) x)
   \<and> (\<forall>r x cur. no_trainer (clean_steps u s) r \<or> no_pokemon (clean_steps u s) r
         \<longrightarrow> get_trainers_by_pokemon cur (Database (without_row r (clean_steps u s))) x
             = get_trainers_by_pokemon cur (Database (clean_steps u s)) x)
   \<and> (\<forall>r x cur. no_ability (clean_steps u s) r \<or> no_pokemon (clean_steps u s) r
         \<longrightarrow> get_pokemon_by_ability cur (Database (without_row r (clean_steps u s))) x
               = get_pokemon_by_ability cur (Database (clean_steps u s)) x
             \<and> get_abilities_by_pokemon cur (Database (without_row r (clean_steps u s))) x
               = get_abilities_by_pokemon cur (Database (clean_steps u s)) x)"
proof (intro conjI allI ballI impI)
  show "trainer_pokemon_abilities (clean_steps u s)
        = delete_not_min jid tpa_key (trainer_pokemon_abilities s)"
    by (rule tpa_clean_steps)
next
  fix r
  assume "r \<in> set (trainer_pokemon_abilities s)"
    and "jid r = group_min jid tpa_key (trainer_pokemon_abilities s) r"
  then show "r \<in> set (trainer_pokemon_abilities (clean_steps u s))"
    by (simp add: tpa_clean_steps min_row_kept)
next
  fix r x
  assume "no_trainer (clean_steps u s) r \<or> no_pokemon (clean_steps u s) r"
  then show "select_trainers_by_pokemon (without_row r (clean_steps u s)) x
             = select_trainers_by_pokemon (clean_steps u s) x"
    by (rule trainers_by_pokemon_without_row)
next
  fix r x
  assume "no_ability (clean_steps u s) r \<or> no_pokemon (clean_steps u s) r"
  then show "select_pokemon_by_ability (without_row r (clean_steps u s)) x
             = select_pokemon_by_ability (clean_steps u s) x"
    by (rule by_ability_without_row)
next
  fix r x
  assume "no_ability (clean_steps u s) r \<or> no_pokemon (clean_steps u s) r"
  then show "select_abilities_by_pokemon (without_row r (clean_steps u s)) x
             = select_abilities_by_pokemon (clean_steps u s) x"
    by (rule abilities_by_pokemon_without_row)
next
  fix r x cur
  assume "no_trainer (clean_steps u s) r \<or> no_pokemon (clean_steps u s) r"
  then show "get_trainers_by_pokemon cur (Database (without_row r (clean_steps u s))) x
             = get_trainers_by_pokemon cur (Database (clean_steps u s)) x"
    unfolding get_trainers_by_pokemon_def
    by (intro read_handler_cong trainers_by_pokemon_without_row)
next
  fix r x cur
  assume "no_ability (clean_steps u s) r \<or> no_pokemon (clean_steps u s) r"
  then show "get_pokemon_by_ability cur (Database (without_row r (clean_steps u s))) x
             = get_pokemon_by_ability cur (Database (clean_steps u s)) x"
    unfolding get_pokemon_by_ability_def
    by (intro read_handler_cong by_ability_without_row)
next
  fix r x cur
  assume "no_ability (clean_steps u s) r \<or> no_pokemon (clean_steps u s) r"
  then show "get_abilities_by_pokemon cur (Database (without_row r (clean_steps u s))) x
             = get_abilities_by_pokemon cur (Database (clean_steps u s)) x"
    unfolding get_abilities_by_pokemon_def
    by (intro read_handler_cong abilities_by_pokemon_without_row)
qed

text \<open>
  The join row 3 of \<open>duplicate_example\<close> refers to the ability row 2, a duplicate that the
  pass deletes; the row survives and creatures-by-ability does not see it. The join row
  2 refers to the deleted trainer row 2, and trainers-by-creature does not see it.
\<close>

theorem join_rows_only_deduplicated_witness:
  "\<lparr>jid = 3, trainer_id = Some 1, pokemon_id = Some 1, ability_id = Some 2\<rparr>
     \<in> set (trainer_pokemon_abilities (clean_steps no_unicode duplicate_example))
   \<and> no_ability (clean_steps no_unicode duplicate_example)
       \<lparr>jid = 3, trainer_id = Some 1, pokemon_id = Some 1, ability_id = Some 2\<rparr>
   \<and> select_pokemon_by_ability
       (without_row \<lparr>jid = 3, trainer_id = Some 1, pokemon_id = Some 1, ability_id = Some 2\<rparr>
          (clean_steps no_unicode duplicate_example)) ''static''
     = select_pokemon_by_ability (clean_steps no_unicode duplicate_example) ''static''
   \<and> get_pokemon_by_ability Sqlite3_Cursor
       (Database (without_row
          \<lparr>jid = 3, trainer_id = Some 1, pokemon_id = Some 1, ability_id = Some 2\<rparr>
          (clean_steps no_unicode duplicate_example))) ''static''
     = get_pokemon_by_ability Sqlite3_Cursor
         (Database (clean_steps no_unicode duplicate_example)) ''static''
   \<and> no_trainer (clean_steps no_unicode duplicate_example)
       \<lparr>jid = 2, trainer_id = Some 2, pokemon_id = Some 1, ability_id = Some 1\<rparr>
   \<and> select_trainers_by_pokemon
       (without_row \<lparr>jid = 2, trainer_id = Some 2, pokemon_id = Some 1, ability_id = Some 1\<rparr>
          (clean_steps no_unicode duplicate_example)) ''Pikachu''
     = select_trainers_by_pokemon (clean_steps no_unicode duplicate_example) ''Pikachu''
   \<and> get_trainers_by_pokemon Sqlite3_Cursor
       (Database (without_row
          \<lparr>jid = 2, trainer_id = Some 2, pokemon_id = Some 1, ability_id = Some 1\<rparr>
          (clean_steps no_unicode duplicate_example))) ''Pikachu''
     = get_trainers_by_pokemon Sqlite3_Cursor
         (Database (clean_steps no_unicode duplicate_example)) ''Pikachu''"
proof -
  let ?r = "\<lparr>jid = 3, trainer_id = Some 1, pokemon_id = Some 1, ability_id = Some 2\<rparr>"
  let ?q = "\<lparr>jid = 2, trainer_id = Some 2, pokemon_id = Some 1, ability_id = Some 1\<rparr>"
  have member: "?r \<in> set (trainer_pokemon_abilities duplicate_example)"
    by code_simp
  have lowest: "jid ?r = group_min jid tpa_key (trainer_pokemon_abilities duplicate_example) ?r"
    by code_simp
  have dangling: "no_ability (clean_steps no_unicode duplicate_example) ?r"
    by code_simp
  have orphan: "no_trainer (clean_steps no_unicode duplicate_example) ?q"
    by code_simp
  note all = join_rows_only_deduplicated [of no_unicode duplicate_example]
  from all member lowest
  have survives: "?r \<in> set (trainer_pokemon_abilities (clean_steps no_unicode duplicate_example))"
    by blast
  from all dangling
  have "select_pokemon_by_ability (without_row ?r (clean_steps no_unicode duplicate_example))
          ''static''
        = select_pokemon_by_ability (clean_steps no_unicode duplicate_example) ''static''"
    by blast
  moreover from all dangling
  have "get_pokemon_by_ability Sqlite3_Cursor
          (Database (without_row ?r (clean_steps no_unicode duplicate_example))) ''static''
        = get_pokemon_by_ability Sqlite3_Cursor
            (Database (clean_steps no_unicode duplicate_example)) ''static''"
    by blast
  moreover from all orphan
  have "select_trainers_by_pokemon (without_row ?q (clean_steps no_unicode duplicate_example))
          ''Pikachu''
        = select_trainers_by_pokemon (clean_steps no_unicode duplicate_example) ''Pikachu''"
    by blast
  moreover from all orphan
  have "get_trainers_by_pokemon Sqlite3_Cursor
          (Database (without_row ?q (clean_steps no_unicode duplicate_example))) ''Pikachu''
        = get_trainers_by_pokemon Sqlite3_Cursor
            (Database (clean_steps no_unicode duplicate_example)) ''Pikachu''"
    by blast
  ultimately show ?thesis using survives dangling orphan by simp
qed

text \<open>
  The scope of the last statement: a dangling row still takes part in a join that does
  not go through its dangling reference. The join row 2 of \<open>duplicate_example\<close>, whose
  trainer is deleted, survives, and the statement of creatures-by-ability, which does
  not look at trainers, selects the creature once more because of it.
\<close>

lemma dangling_row_in_other_joins:
  "\<lparr>jid = 2, trainer_id = Some 2, pokemon_id = Some 1, ability_id = Some 1\<rparr>
     \<in> set (trainer_pokemon_abilities (clean_steps u duplicate_example))
   \<and> map nid (trainers duplicate_example) = [1, 2]
   \<and> map nid (trainers (clean_steps u duplicate_example)) = [1]
   \<and> select_pokemon_by_ability (clean_steps u duplicate_example) ''static''
       = [Some ''Pikachu'', Some ''Pikachu'']
   \<and> select_pokemon_by_ability
       (without_row \<lparr>jid = 2, trainer_id = Some 2, pokemon_id = Some 1, ability_id = Some 1\<rparr>
          (clean_steps u duplicate_example)) ''static''
       = [Some ''Pikachu'']"
  by code_simp

section \<open>Cleaning twice, and duplicates after cleaning\<close>

text \<open>
  C1 at a failing input. The duplicates are deleted (lines 54-88) before the names are
  normalised (lines 93-141), on the names as they are spelled in the seed. On
  \<open>seed_example\<close> the first pass leaves two rows in each of the four entity tables that
  have become equal by the normalisation; a second pass deletes one of each. The names
  are ASCII texts, so this holds whatever the Unicode capitalisation is.
\<close>

theorem second_pass_changes_rows:
  "clean_steps u seed_example =
     \<lparr>types = [\<lparr>nid = 1, nname = Some ''Fire''\<rparr>, \<lparr>nid = 2, nname = Some ''Fire''\<rparr>],
      abilities = [\<lparr>nid = 1, nname = Some ''Static''\<rparr>, \<lparr>nid = 2, nname = Some ''Static''\<rparr>],
      pokemon = [\<lparr>pid = 1, pname = Some ''Pikachu'', type1_id = Some 1, type2_id = None\<rparr>,
                 \<lparr>pid = 2, pname = Some ''Pikachu'', type1_id = Some 1, type2_id = None\<rparr>],
      trainers = [\<lparr>nid = 1, nname = Some ''Misty''\<rparr>, \<lparr>nid = 2, nname = Some ''Misty''\<rparr>],
      trainer_pokemon_abilities =
        [\<lparr>jid = 1, trainer_id = Some 1, pokemon_id = Some 1, ability_id = Some 1\<rparr>]\<rparr>
   \<and> clean_steps u (clean_steps u seed_example) =
     \<lparr>types = [\<lparr>nid = 1, nname = Some ''Fire''\<rparr>],
      abilities = [\<lparr>nid = 1, nname = Some ''Static''\<rparr>],
      pokemon = [\<lparr>pid = 1, pname = Some ''Pikachu'', type1_id = Some 1, type2_id = None\<rparr>],
      trainers = [\<lparr>nid = 1, nname = Some ''Misty''\<rparr>],
      trainer_pokemon_abilities =
        [\<lparr>jid = 1, trainer_id = Some 1, pokemon_id = Some 1, ability_id = Some 1\<rparr>]\<rparr>"
  by code_simp

text \<open>
  The part of the uniqueness property that does hold: deleting the non-minimal rows of
  every group leaves one row per key, and nothing changes a join row afterwards.
\<close>

lemma group_min_Min:
  assumes "r \<in> set rows"
  shows "group_min idf key rows r = Min (idf ` {x \<in> set rows. key x = key r})"
proof -
  let ?L = "map idf (filter (\<lambda>r'. key r' = key r) rows)"
  from assms have mem: "idf r \<in> set ?L" by simp
  have "fold min ?L (idf r) = Min (set (idf r # ?L))"
    by (simp only: Min.set_eq_fold)
  also from mem have "set (idf r # ?L) = set ?L" by auto
  also have "set ?L = idf ` {x \<in> set rows. key x = key r}" by auto
  finally show ?thesis by (simp add: group_min_def)
qed

lemma group_min_attained:
  assumes "r \<in> set rows"
  shows "\<exists>x \<in> set rows. key x = key r \<and> group_min idf key rows r = idf x"
proof -
  let ?G = "idf ` {x \<in> set rows. key x = key r}"
  from assms have "?G \<noteq> {}" by auto
  moreover have "finite ?G" by simp
  ultimately have "Min ?G \<in> ?G" by (rule Min_in [rotated])
  then show ?thesis by (auto simp: group_min_Min [OF assms])
qed

lemma kept_row_is_group_min:
  assumes d: "distinct (map idf rows)" and r: "r \<in> set (delete_not_min idf key rows)"
  shows "idf r = Min (idf ` {x \<in> set rows. key x = key r})"
proof -
  from r have rin: "r \<in> set rows" and "idf r \<in> set (min_ids idf key rows)"
    by (simp_all add: delete_not_min_def)
  then obtain r' where r': "r' \<in> set rows" and eq: "idf r = group_min idf key rows r'"
    by (auto simp: min_ids_def)
  from group_min_attained [OF r'] obtain x
    where x: "x \<in> set rows" "key x = key r'" "group_min idf key rows r' = idf x" by blast
  from d have "inj_on idf (set rows)" by (simp add: distinct_map)
  with eq x rin have "r = x" by (auto dest: inj_onD)
  with x have "key r = key r'" by simp
  with eq show ?thesis by (simp add: group_min_Min [OF r'])
qed

lemma delete_not_min_keys_distinct:
  assumes d: "distinct (map idf rows)"
  shows "distinct (map key (delete_not_min idf key rows))"
proof -
  from d have dr: "distinct rows" and inj: "inj_on idf (set rows)"
    by (simp_all add: distinct_map)
  have "inj_on key (set (delete_not_min idf key rows))"
  proof (rule inj_onI)
    fix a b
    assume a: "a \<in> set (delete_not_min idf key rows)"
      and b: "b \<in> set (delete_not_min idf key rows)" and k: "key a = key b"
    from kept_row_is_group_min [OF d a] kept_row_is_group_min [OF d b] k
    have "idf a = idf b" by simp
    moreover from a b have "a \<in> set rows" "b \<in> set rows" by (simp_all add: delete_not_min_def)
    ultimately show "a = b" using inj by (auto dest: inj_onD)
  qed
  moreover from dr have "distinct (delete_not_min idf key rows)"
    by (simp add: delete_not_min_def)
  ultimately show ?thesis by (simp add: distinct_map)
qed

lemma join_keys_unique_after_cleaning:
  "wf_store s \<Longrightarrow> join_keys_unique (clean_steps u s)"
  by (simp add: join_keys_unique_def wf_store_def clean_steps_def Let_def
      tpa_static_statements delete_not_min_keys_distinct)

text \<open>
  C2 at a failing input. After one pass over \<open>seed_example\<close> two type rows are named
  \<^verbatim>\<open>Fire\<close>, two ability rows \<^verbatim>\<open>Static\<close>, two trainer rows \<^verbatim>\<open>Misty\<close>, and two creature rows
  have the key \<^verbatim>\<open>(Pikachu, 1, NULL)\<close>.
\<close>

theorem duplicates_survive_cleaning:
  "wf_store seed_example
   \<and> map nname (types (clean_steps u seed_example)) = [Some ''Fire'', Some ''Fire'']
   \<and> map nname (abilities (clean_steps u seed_example)) = [Some ''Static'', Some ''Static'']
   \<and> map nname (trainers (clean_steps u seed_example)) = [Some ''Misty'', Some ''Misty'']
   \<and> map pokemon_key (pokemon (clean_steps u seed_example))
       = [(Some ''Pikachu'', Some 1, None), (Some ''Pikachu'', Some 1, None)]
   \<and> \<not> names_unique_nocase (types (clean_steps u seed_example))
   \<and> \<not> names_unique_nocase (abilities (clean_steps u seed_example))
   \<and> \<not> names_unique_nocase (trainers (clean_steps u seed_example))
   \<and> \<not> creature_keys_unique (clean_steps u seed_example)"
  by code_simp

section \<open>Casing\<close>

lemma map_fixed: "map f xs = xs \<Longrightarrow> x \<in> set xs \<Longrightarrow> f x = x"
  by (induction xs) auto

lemma of_char_upper_c: "is_lower c \<Longrightarrow> (of_char (upper_c c) :: nat) = of_char c - 32"
proof -
  assume l: "is_lower c"
  then have "(of_char c :: nat) - 32 < 256" by (auto simp: is_lower_def)
  with l show ?thesis by (simp add: upper_c_def)
qed

lemma of_char_lower_c: "is_upper c \<Longrightarrow> (of_char (lower_c c) :: nat) = of_char c + 32"
proof -
  assume u: "is_upper c"
  then have "(of_char c :: nat) + 32 < 256" by (auto simp: is_upper_def)
  with u show ?thesis by (simp add: lower_c_def)
qed

lemma upper_c_not_lower: "\<not> is_lower (upper_c c)"
proof (cases "is_lower c")
  case True
  then show ?thesis using of_char_upper_c [OF True] by (auto simp: is_lower_def)
next
  case False
  then show ?thesis by (simp add: upper_c_def)
qed

lemma lower_c_not_upper: "\<not> is_upper (lower_c c)"
proof (cases "is_upper c")
  case True
  then show ?thesis using of_char_lower_c [OF True] by (auto simp: is_upper_def)
next
  case False
  then show ?thesis by (simp add: lower_c_def)
qed

lemma upper_c_idem [simp]: "upper_c (upper_c c) = upper_c c"
  using upper_c_not_lower [of c] by (simp add: upper_c_def)

lemma lower_c_idem [simp]: "lower_c (lower_c c) = lower_c c"
  using lower_c_not_upper [of c] by (simp add: lower_c_def)

lemma upper_c_fixed_letter: "upper_c c = c \<Longrightarrow> is_upper c \<or> is_lower c \<Longrightarrow> is_upper c"
  using upper_c_not_lower [of c] by auto

lemma lower_c_fixed_letter: "lower_c c = c \<Longrightarrow> is_upper c \<or> is_lower c \<Longrightarrow> is_lower c"
  using lower_c_not_upper [of c] by auto

lemma upper_c_hyphen: "upper_c c = CHR ''-'' \<longleftrightarrow> c = CHR ''-''"
proof
  assume h: "upper_c c = CHR ''-''"
  show "c = CHR ''-''"
  proof (cases "is_lower c")
    case True
    from of_char_upper_c [OF True] h have "(of_char c :: nat) - 32 = 45" by simp
    with True have False by (auto simp: is_lower_def)
    then show ?thesis ..
  next
    case False
    with h show ?thesis by (simp add: upper_c_def)
  qed
next
  assume "c = CHR ''-''"
  then show "upper_c c = CHR ''-''" by (simp add: upper_c_def is_lower_def)
qed

lemma lower_c_hyphen: "lower_c c = CHR ''-'' \<longleftrightarrow> c = CHR ''-''"
proof
  assume h: "lower_c c = CHR ''-''"
  show "c = CHR ''-''"
  proof (cases "is_upper c")
    case True
    from of_char_lower_c [OF True] h have "(of_char c :: nat) + 32 = 45" by simp
    with True have False by (auto simp: is_upper_def)
    then show ?thesis ..
  next
    case False
    with h show ?thesis by (simp add: lower_c_def)
  qed
next
  assume "c = CHR ''-''"
  then show "lower_c c = CHR ''-''" by (simp add: lower_c_def is_upper_def)
qed

lemma sql_title_capitalize: "sql_title s = ascii_capitalize s"
  by (cases s) (simp_all add: sql_title_def UPPER_def LOWER_def)

lemma capitalize_idem [simp]: "ascii_capitalize (ascii_capitalize s) = ascii_capitalize s"
  by (cases s) simp_all

lemma capitalize_hyphen_free: "CHR ''-'' \<notin> set s \<Longrightarrow> CHR ''-'' \<notin> set (ascii_capitalize s)"
proof (cases s)
  case Nil
  then show ?thesis by simp
next
  case (Cons c cs)
  assume free: "CHR ''-'' \<notin> set s"
  with Cons have "upper_c c \<noteq> CHR ''-''" by (auto simp: upper_c_hyphen)
  moreover have "\<forall>x \<in> set cs. lower_c x \<noteq> CHR ''-''"
    using free Cons by (auto simp: lower_c_hyphen)
  ultimately show ?thesis using Cons by auto
qed

lemma capitalize_fixed_pattern: "ascii_capitalize n = n \<Longrightarrow> letters n \<Longrightarrow> type_pattern n"
proof (cases n)
  case Nil
  assume "letters n" with Nil show ?thesis by (simp add: letters_def)
next
  case (Cons c cs)
  assume fixed: "ascii_capitalize n = n" and l: "letters n"
  from fixed Cons have c: "upper_c c = c" and cs: "map lower_c cs = cs" by simp_all
  from l Cons have lc: "is_upper c \<or> is_lower c"
    and lcs: "\<forall>x \<in> set cs. is_upper x \<or> is_lower x"
    by (simp_all add: letters_def list_all_iff)
  have "is_upper c" using c lc by (rule upper_c_fixed_letter)
  moreover have "\<forall>x \<in> set cs. is_lower x"
    using lcs map_fixed [OF cs] by (auto intro: lower_c_fixed_letter)
  ultimately show ?thesis using Cons by (simp add: type_pattern_def list_all_iff)
qed

lemma split_not_Nil [simp]: "split d s \<noteq> []"
  by (induction s) (auto split: list.splits)

lemma split_parts_free: "p \<in> set (split d s) \<Longrightarrow> d \<notin> set p"
  by (induction s arbitrary: p) (auto split: list.splits if_splits)

lemma split_join: "ps \<noteq> [] \<Longrightarrow> \<forall>p \<in> set ps. d \<notin> set p \<Longrightarrow> split d (join d ps) = ps"
proof (induction d ps rule: join.induct)
  case (1 d)
  then show ?case by simp
next
  case (2 d p)
  then show ?case by (induction p) (auto split: list.splits)
next
  case (3 d p q ps)
  from 3 have IH: "split d (join d (q # ps)) = q # ps" by simp
  from 3 have "d \<notin> set p" by simp
  then show ?case using IH by (induction p) (auto split: list.splits)
qed

text \<open>ASCII texts, on which \<open>capitalize\<close> does not depend on its parameter.\<close>

lemma capitalize_ascii: "ascii s \<Longrightarrow> capitalize u s = ascii_capitalize s"
  by (simp add: capitalize_def)

lemma ascii_Cons [simp]: "ascii (c # cs) \<longleftrightarrow> (of_char c :: nat) < 128 \<and> ascii cs"
  by (simp add: ascii_def)

lemma ascii_Nil [simp]: "ascii []"
  by (simp add: ascii_def)

lemma ascii_append [simp]: "ascii (xs @ ys) \<longleftrightarrow> ascii xs \<and> ascii ys"
  by (simp add: ascii_def)

lemma ascii_upper_c: "(of_char c :: nat) < 128 \<Longrightarrow> (of_char (upper_c c) :: nat) < 128"
proof (cases "is_lower c")
  case True
  assume "(of_char c :: nat) < 128"
  with of_char_upper_c [OF True] show ?thesis by simp
next
  case False
  assume "(of_char c :: nat) < 128"
  with False show ?thesis by (simp add: upper_c_def)
qed

lemma ascii_lower_c: "(of_char c :: nat) < 128 \<Longrightarrow> (of_char (lower_c c) :: nat) < 128"
proof (cases "is_upper c")
  case True
  assume "(of_char c :: nat) < 128"
  from True have "(of_char c :: nat) \<le> 90" by (simp add: is_upper_def)
  with of_char_lower_c [OF True] show ?thesis by simp
next
  case False
  assume "(of_char c :: nat) < 128"
  with False show ?thesis by (simp add: lower_c_def)
qed

lemma ascii_map_lower_c: "ascii cs \<Longrightarrow> ascii (map lower_c cs)"
  by (induction cs) (simp_all add: ascii_lower_c)

lemma ascii_ascii_capitalize: "ascii s \<Longrightarrow> ascii (ascii_capitalize s)"
  by (cases s) (simp_all add: ascii_upper_c ascii_map_lower_c)

lemma ascii_split: "ascii s \<Longrightarrow> p \<in> set (split d s) \<Longrightarrow> ascii p"
  by (induction s arbitrary: p) (auto split: list.splits if_splits)

lemma ascii_join:
  "(of_char d :: nat) < 128 \<Longrightarrow> \<forall>p \<in> set ps. ascii p \<Longrightarrow> ascii (join d ps)"
  by (induction d ps rule: join.induct) simp_all

lemma title_parts_ascii:
  assumes "ascii n"
  shows "title_parts u n = join (CHR ''-'') (map ascii_capitalize (split (CHR ''-'') n))"
proof -
  have "map (capitalize u) (split (CHR ''-'') n) = map ascii_capitalize (split (CHR ''-'') n)"
    by (rule map_cong [OF refl]) (simp add: capitalize_ascii ascii_split [OF assms])
  then show ?thesis by (simp only: title_parts_def)
qed

lemma ascii_title_parts: "ascii n \<Longrightarrow> ascii (title_parts u n)"
proof -
  assume a: "ascii n"
  have "\<forall>p \<in> set (map ascii_capitalize (split (CHR ''-'') n)). ascii p"
    using ascii_split [OF a] by (auto intro: ascii_ascii_capitalize)
  then have "ascii (join (CHR ''-'') (map ascii_capitalize (split (CHR ''-'') n)))"
    by (intro ascii_join) simp_all
  with a show ?thesis by (simp add: title_parts_ascii)
qed

lemma split_title_parts:
  assumes "ascii n"
  shows "split (CHR ''-'') (title_parts u n) = map ascii_capitalize (split (CHR ''-'') n)"
proof -
  let ?ps = "map ascii_capitalize (split (CHR ''-'') n)"
  have "\<forall>p \<in> set ?ps. CHR ''-'' \<notin> set p"
    using split_parts_free [of _ "CHR ''-''" n] capitalize_hyphen_free by auto
  then have "split (CHR ''-'') (join (CHR ''-'') ?ps) = ?ps"
    by (intro split_join) simp_all
  with assms show ?thesis by (simp add: title_parts_ascii)
qed

lemma title_parts_canonical: "ascii n \<Longrightarrow> canonical_ability (title_parts u n)"
proof -
  assume a: "ascii n"
  then show ?thesis
    by (simp add: canonical_ability_def split_title_parts comp_def)
      (simp add: title_parts_ascii)
qed

lemma title_parts_pattern:
  assumes "ascii n" and "list_all letters (split (CHR ''-'') (title_parts u n))"
  shows "ability_pattern (title_parts u n)"
proof -
  have "\<forall>p \<in> set (map ascii_capitalize (split (CHR ''-'') n)). type_pattern p"
  proof
    fix p assume p: "p \<in> set (map ascii_capitalize (split (CHR ''-'') n))"
    then have "ascii_capitalize p = p" by auto
    moreover from assms p have "letters p"
      by (auto simp: split_title_parts list_all_iff)
    ultimately show "type_pattern p" by (rule capitalize_fixed_pattern)
  qed
  with assms(1) show ?thesis
    by (simp add: ability_pattern_def split_title_parts list_all_iff)
qed

text \<open>The tables of types and abilities after the twelve statements.\<close>

lemma types_update_ability_name [simp]:
  "types (update_ability_name i n s) = types s"
  by (simp add: update_ability_name_def)

lemma types_run_ability_updates [simp]:
  "types (run_all (ability_updates u fetched) s) = types s"
proof -
  have "types (fold (\<lambda>f t. f t) (ability_updates u fetched) s) = types s"
  proof (induction fetched arbitrary: s)
    case Nil
    show ?case by (simp add: ability_updates_def)
  next
    case (Cons f fetched)
    obtain i n where f: "f = (i, n)" by (cases f)
    show ?case by (simp add: f ability_updates_Cons Cons.IH)
  qed
  then show ?thesis by (simp add: run_all_def)
qed

lemma map_option_case:
  "(case x of Some n \<Rightarrow> Some (f n) | None \<Rightarrow> None) = map_option f x"
  by (cases x) simp_all

lemma types_static_statements:
  "types (run_all static_statements s)
   = map (\<lambda>r. r\<lparr>nname := map_option sql_title (nname r)\<rparr>)
       (delete_not_min nid nname (types s))"
  by (simp add: run_all_def static_statements_def dedup_abilities_def
      dedup_pokemon_def dedup_tpa_def dedup_trainers_def dedup_types_def delete_sentinel_def
      title_types_def fix_abilities_def repoint_type2_def fix_trainers_def
      delete_nameless_trainers_def fix_pokemon_def map_option_case)

lemma types_clean_steps:
  "types (clean_steps u s)
   = map (\<lambda>r. r\<lparr>nname := map_option sql_title (nname r)\<rparr>)
       (delete_not_min nid nname (types s))"
  by (simp add: clean_steps_def Let_def types_static_statements)

lemma abilities_static_statements:
  "abilities (run_all static_statements s)
   = map (\<lambda>r. r\<lparr>nname := fix_ability (nname r)\<rparr>)
       (filter (\<lambda>r. nname r \<noteq> Some ''Remove this ability'')
          (delete_not_min nid nname (abilities s)))"
  by (simp add: run_all_def static_statements_def dedup_abilities_def
      dedup_pokemon_def dedup_tpa_def dedup_trainers_def dedup_types_def delete_sentinel_def
      title_types_def fix_abilities_def repoint_type2_def fix_trainers_def
      delete_nameless_trainers_def fix_pokemon_def)

lemma sql_title_idem: "sql_title (sql_title n) = sql_title n"
  by (simp add: sql_title_capitalize)

text \<open>
  The loop of lines 137-141 on a table with distinct identifiers: each update reaches
  the one row it was computed from, so the loop capitalises the name of every row that
  has one and leaves the others alone.
\<close>

lemma run_ability_updates_distinct:
  assumes "distinct (map fst fetched)"
  shows "abilities (fold (\<lambda>f t. f t) (ability_updates u fetched) s)
         = map (\<lambda>r. case map_of fetched (nid r) of
                       None \<Rightarrow> r
                     | Some n \<Rightarrow> if title_parts u n \<noteq> n
                                 then r\<lparr>nname := Some (title_parts u n)\<rparr> else r)
             (abilities s)"
  using assms
proof (induction fetched arbitrary: s)
  case Nil
  show ?case by (simp add: ability_updates_def)
next
  case (Cons f fetched)
  obtain i n where f: "f = (i, n)" by (cases f)
  from Cons.prems f have fresh: "i \<notin> fst ` set fetched" and d: "distinct (map fst fetched)"
    by simp_all
  from fresh have none: "map_of fetched i = None"
    by (simp add: map_of_eq_None_iff)
  let ?s1 = "if title_parts u n \<noteq> n then update_ability_name i (title_parts u n) s else s"
  have step: "fold (\<lambda>f t. f t) (ability_updates u (f # fetched)) s
              = fold (\<lambda>f t. f t) (ability_updates u fetched) ?s1"
    by (simp add: f ability_updates_Cons)
  have table: "abilities ?s1
               = map (\<lambda>r. if title_parts u n \<noteq> n \<and> nid r = i
                           then r\<lparr>nname := Some (title_parts u n)\<rparr> else r) (abilities s)"
    by (simp add: update_ability_name_def)
  show ?case
    unfolding step Cons.IH [OF d] table
    by (simp add: f none)
qed

lemma fst_fetch_subset:
  "fst ` set (concat (map (\<lambda>r. case nname r of None \<Rightarrow> [] | Some n \<Rightarrow> [(nid r, n)]) rows))
   \<subseteq> nid ` set rows"
  by (induction rows) (auto split: option.splits)

lemma distinct_fetch:
  "distinct (map nid rows) \<Longrightarrow>
   distinct (map fst (concat (map (\<lambda>r. case nname r of None \<Rightarrow> [] | Some n \<Rightarrow> [(nid r, n)])
                                rows)))"
proof (induction rows)
  case Nil
  show ?case by simp
next
  case (Cons a rows)
  from Cons.prems have "nid a \<notin> nid ` set rows" and "distinct (map nid rows)" by simp_all
  with Cons.IH fst_fetch_subset [of rows] show ?case
    by (cases "nname a") auto
qed

lemma map_of_fetch:
  "distinct (map nid rows) \<Longrightarrow> r \<in> set rows \<Longrightarrow>
   map_of (concat (map (\<lambda>r. case nname r of None \<Rightarrow> [] | Some n \<Rightarrow> [(nid r, n)]) rows))
     (nid r) = nname r"
proof (induction rows)
  case Nil
  then show ?case by simp
next
  case (Cons a rows)
  from Cons.prems have fresh: "nid a \<notin> nid ` set rows" and d: "distinct (map nid rows)"
    by simp_all
  let ?rest = "concat (map (\<lambda>r. case nname r of None \<Rightarrow> [] | Some n \<Rightarrow> [(nid r, n)]) rows)"
  show ?case
  proof (cases "r = a")
    case True
    from fresh fst_fetch_subset [of rows] have "map_of ?rest (nid a) = None"
      by (auto simp: map_of_eq_None_iff)
    with True show ?thesis by (cases "nname a") simp_all
  next
    case False
    with Cons.prems have r: "r \<in> set rows" by simp
    with fresh have "nid r \<noteq> nid a" by (metis imageI)
    with Cons.IH [OF d r] show ?thesis by (cases "nname a") simp_all
  qed
qed

lemma abilities_clean_steps:
  assumes "distinct (map nid (abilities s))"
  shows "abilities (clean_steps u s)
         = map (\<lambda>r. r\<lparr>nname := map_option (title_parts u) (fix_ability (nname r))\<rparr>)
             (filter (\<lambda>r. nname r \<noteq> Some ''Remove this ability'')
                (delete_not_min nid nname (abilities s)))"
proof -
  let ?s1 = "run_all static_statements s"
  let ?F = "fetch_named_abilities ?s1"
  from assms have d: "distinct (map nid (abilities ?s1))"
    by (simp add: abilities_static_statements delete_not_min_def comp_def distinct_map_filter)
  then have dF: "distinct (map fst ?F)"
    unfolding fetch_named_abilities_def by (rule distinct_fetch)
  have "abilities (clean_steps u s)
        = map (\<lambda>r. case map_of ?F (nid r) of
                      None \<Rightarrow> r
                    | Some n \<Rightarrow> if title_parts u n \<noteq> n
                                then r\<lparr>nname := Some (title_parts u n)\<rparr> else r)
            (abilities ?s1)"
    by (simp add: clean_steps_def Let_def run_all_def [of "ability_updates u ?F"]
        run_ability_updates_distinct [OF dF])
  also have "\<dots> = map (\<lambda>r. r\<lparr>nname := map_option (title_parts u) (nname r)\<rparr>) (abilities ?s1)"
  proof (rule map_cong [OF refl])
    fix r assume r: "r \<in> set (abilities ?s1)"
    from map_of_fetch [OF d r] have "map_of ?F (nid r) = nname r"
      by (simp add: fetch_named_abilities_def)
    then show "(case map_of ?F (nid r) of
                  None \<Rightarrow> r
                | Some n \<Rightarrow> if title_parts u n \<noteq> n
                            then r\<lparr>nname := Some (title_parts u n)\<rparr> else r)
               = r\<lparr>nname := map_option (title_parts u) (nname r)\<rparr>"
      by (cases "nname r") auto
  qed
  finally show ?thesis by (simp add: abilities_static_statements comp_def)
qed

lemma ascii_fix_ability:
  "(case n of None \<Rightarrow> True | Some m \<Rightarrow> ascii m) \<Longrightarrow>
   (case fix_ability n of None \<Rightarrow> True | Some m \<Rightarrow> ascii m)"
  by (simp add: fix_ability_def)

text \<open>
  C9 (as amended). After the cleaning pass the type table is the deduplicated type
  table of the seed with every name title-cased as SQLite does it (ASCII letters only)
  and every NULL left NULL; so every type name is its own title-casing, and it matches
  \<^verbatim>\<open>^[A-Z][a-z]*$\<close> provided it is non-empty and consists of letters. When the
  identifiers of the ability rows are distinct, the ability table is the deduplicated
  ability table of the seed without the sentinel rows, with every name corrected by
  the table of lines 101-107 and then capitalised segment by segment, and every NULL left
  NULL. When moreover the ability names of the seed are ASCII texts, every ability name
  is in canonical form, and it matches \<^verbatim>\<open>^([A-Z][a-z]*)(-[A-Z][a-z]*)*$\<close> provided each
  of its hyphen-separated segments is non-empty and consists of letters. Outside ASCII
  the capitalisation is Python's, of which the model knows nothing.
\<close>

theorem names_after_cleaning:
  "types (clean_steps u s)
     = map (\<lambda>r. r\<lparr>nname := map_option sql_title (nname r)\<rparr>)
         (delete_not_min nid nname (types s))
   \<and> (\<forall>r \<in> set (types (clean_steps u s)).
         case nname r of None \<Rightarrow> True
         | Some n \<Rightarrow> sql_title n = n \<and> (letters n \<longrightarrow> type_pattern n))
   \<and> (distinct (map nid (abilities s)) \<longrightarrow>
         abilities (clean_steps u s)
         = map (\<lambda>r. r\<lparr>nname := map_option (title_parts u) (fix_ability (nname r))\<rparr>)
             (filter (\<lambda>r. nname r \<noteq> Some ''Remove this ability'')
                (delete_not_min nid nname (abilities s))))
   \<and> (distinct (map nid (abilities s)) \<and> ascii_names (abilities s) \<longrightarrow>
         (\<forall>r \<in> set (abilities (clean_steps u s)).
            case nname r of None \<Rightarrow> True
            | Some n \<Rightarrow> canonical_ability n
                        \<and> (list_all letters (split (CHR ''-'') n) \<longrightarrow> ability_pattern n)))"
proof (intro conjI impI ballI)
  show "types (clean_steps u s)
        = map (\<lambda>r. r\<lparr>nname := map_option sql_title (nname r)\<rparr>)
            (delete_not_min nid nname (types s))"
    by (rule types_clean_steps)
next
  fix r assume "r \<in> set (types (clean_steps u s))"
  then obtain r0 where r: "r = r0\<lparr>nname := map_option sql_title (nname r0)\<rparr>"
    by (auto simp: types_clean_steps)
  show "case nname r of None \<Rightarrow> True
        | Some n \<Rightarrow> sql_title n = n \<and> (letters n \<longrightarrow> type_pattern n)"
  proof (cases "nname r0")
    case None
    with r show ?thesis by simp
  next
    case (Some n0)
    have "sql_title (sql_title n0) = sql_title n0" by (rule sql_title_idem)
    then show ?thesis
      using r Some capitalize_fixed_pattern [of "sql_title n0"]
      by (simp add: sql_title_capitalize)
  qed
next
  assume "distinct (map nid (abilities s))"
  then show "abilities (clean_steps u s)
        = map (\<lambda>r. r\<lparr>nname := map_option (title_parts u) (fix_ability (nname r))\<rparr>)
            (filter (\<lambda>r. nname r \<noteq> Some ''Remove this ability'')
               (delete_not_min nid nname (abilities s)))"
    by (rule abilities_clean_steps)
next
  fix r
  assume h: "distinct (map nid (abilities s)) \<and> ascii_names (abilities s)"
    and "r \<in> set (abilities (clean_steps u s))"
  then obtain r0 where r0: "r0 \<in> set (abilities s)"
    and r: "r = r0\<lparr>nname := map_option (title_parts u) (fix_ability (nname r0))\<rparr>"
    by (auto simp: abilities_clean_steps delete_not_min_def)
  from h r0 have "case nname r0 of None \<Rightarrow> True | Some m \<Rightarrow> ascii m"
    by (auto simp: ascii_names_def)
  then have a: "case fix_ability (nname r0) of None \<Rightarrow> True | Some m \<Rightarrow> ascii m"
    by (rule ascii_fix_ability)
  show "case nname r of None \<Rightarrow> True
        | Some n \<Rightarrow> canonical_ability n
                    \<and> (list_all letters (split (CHR ''-'') n) \<longrightarrow> ability_pattern n)"
  proof (cases "fix_ability (nname r0)")
    case None
    with r show ?thesis by simp
  next
    case (Some m)
    with a have "ascii m" by simp
    then show ?thesis
      using r Some title_parts_canonical [of m u] title_parts_pattern [of m u]
      by simp
  qed
qed

text \<open>
  On \<open>casing_example\<close>: \<^verbatim>\<open>wATER\<close> has become \<^verbatim>\<open>Water\<close> and \<^verbatim>\<open>solar-power\<close> has become
  \<^verbatim>\<open>Solar-Power\<close>, and both match; the rows without a name are still without one.
\<close>

theorem names_after_cleaning_witness:
  "distinct (map nid (abilities casing_example)) \<and> ascii_names (abilities casing_example)
   \<and> \<lparr>nid = 1, nname = Some ''Water''\<rparr> \<in> set (types (clean_steps no_unicode casing_example))
   \<and> letters ''Water'' \<and> type_pattern ''Water''
   \<and> \<lparr>nid = 1, nname = Some ''Solar-Power''\<rparr>
       \<in> set (abilities (clean_steps no_unicode casing_example))
   \<and> list_all letters (split (CHR ''-'') ''Solar-Power'') \<and> ability_pattern ''Solar-Power''
   \<and> map nname (types (clean_steps no_unicode casing_example))
       = [Some ''Water'', Some ''???'', None]
   \<and> map nname (abilities (clean_steps no_unicode casing_example))
       = [Some ''Solar-Power'', Some ''Lightning rod'', None]"
proof -
  note all = names_after_cleaning [of no_unicode casing_example]
  have d: "distinct (map nid (abilities casing_example))" by code_simp
  have a: "ascii_names (abilities casing_example)" by code_simp
  have t: "\<lparr>nid = 1, nname = Some ''Water''\<rparr>
             \<in> set (types (clean_steps no_unicode casing_example))"
    by code_simp
  have tl: "letters ''Water''" by code_simp
  have ab: "\<lparr>nid = 1, nname = Some ''Solar-Power''\<rparr>
              \<in> set (abilities (clean_steps no_unicode casing_example))"
    by code_simp
  have al: "list_all letters (split (CHR ''-'') ''Solar-Power'')" by code_simp
  from all have "\<forall>r \<in> set (types (clean_steps no_unicode casing_example)).
      case nname r of None \<Rightarrow> True
      | Some n \<Rightarrow> sql_title n = n \<and> (letters n \<longrightarrow> type_pattern n)"
    by (rule conjunct2 [THEN conjunct1])
  from bspec [OF this t] tl have "type_pattern ''Water''" by simp
  moreover from all d a
  have "\<forall>r \<in> set (abilities (clean_steps no_unicode casing_example)).
      case nname r of None \<Rightarrow> True
      | Some n \<Rightarrow> canonical_ability n
                  \<and> (list_all letters (split (CHR ''-'') n) \<longrightarrow> ability_pattern n)"
    by blast
  from bspec [OF this ab] al have "ability_pattern ''Solar-Power''" by simp
  moreover from all
  have "types (clean_steps no_unicode casing_example)
        = map (\<lambda>r. r\<lparr>nname := map_option sql_title (nname r)\<rparr>)
            (delete_not_min nid nname (types casing_example))"
    by blast
  then have "map nname (types (clean_steps no_unicode casing_example))
             = [Some ''Water'', Some ''???'', None]"
    by (simp only:) code_simp
  moreover from all d
  have "abilities (clean_steps no_unicode casing_example)
        = map (\<lambda>r. r\<lparr>nname := map_option (title_parts no_unicode) (fix_ability (nname r))\<rparr>)
            (filter (\<lambda>r. nname r \<noteq> Some ''Remove this ability'')
               (delete_not_min nid nname (abilities casing_example)))"
    by blast
  then have "map nname (abilities (clean_steps no_unicode casing_example))
             = [Some ''Solar-Power'', Some ''Lightning rod'', None]"
    by (simp only:) code_simp
  ultimately show ?thesis using d a t tl ab al by simp
qed

text \<open>
  C9 as stated fails: the pass changes the case of letters and nothing else. The type
  name \<^verbatim>\<open>???\<close> stays as it is and the ability name \<^verbatim>\<open>lightning rod\<close> becomes
  \<^verbatim>\<open>Lightning rod\<close>; neither matches its pattern, and a row without a name has none to
  match.
\<close>

theorem names_not_matching_patterns:
  "map nname (types (clean_steps no_unicode casing_example))
     = [Some ''Water'', Some ''???'', None]
   \<and> \<not> type_pattern ''???''
   \<and> map nname (abilities (clean_steps no_unicode casing_example))
       = [Some ''Solar-Power'', Some ''Lightning rod'', None]
   \<and> \<not> ability_pattern ''Lightning rod''"
  by code_simp

section \<open>The cleaning transaction\<close>

lemma view_execute [simp]: "view (execute stmt c) = stmt (view c)"
  by (simp add: view_def execute_def)

lemma committed_execute [simp]: "committed (execute stmt c) = committed c"
  by (simp add: execute_def)

lemma run_statements_Inr:
  "run_statements fails k stmts c = Inr (k', c') \<Longrightarrow>
   k' = k + length stmts \<and> view c' = run_all stmts (view c) \<and> committed c' = committed c
   \<and> (\<forall>j. k \<le> j \<and> j < k' \<longrightarrow> \<not> fails (Execute j))"
proof (induction stmts arbitrary: k c)
  case Nil
  then show ?case by (auto simp: run_all_def)
next
  case (Cons stmt stmts)
  from Cons.prems have ok: "\<not> fails (Execute k)"
    and rest: "run_statements fails (Suc k) stmts (execute stmt c) = Inr (k', c')"
    by (simp_all split: if_splits)
  from Cons.IH [OF rest] have k': "k' = Suc k + length stmts"
    and v: "view c' = run_all stmts (view (execute stmt c))"
    and co: "committed c' = committed c"
    and no: "\<forall>j. Suc k \<le> j \<and> j < k' \<longrightarrow> \<not> fails (Execute j)"
    by simp_all
  have "\<forall>j. k \<le> j \<and> j < k' \<longrightarrow> \<not> fails (Execute j)"
  proof (intro allI impI)
    fix j assume "k \<le> j \<and> j < k'"
    then have "j = k \<or> (Suc k \<le> j \<and> j < k')" by arith
    with ok no show "\<not> fails (Execute j)" by blast
  qed
  with k' v co show ?case by (simp add: run_all_def)
qed

lemma run_statements_Inl:
  "run_statements fails k stmts c = Inl (j, c') \<Longrightarrow>
   fails (Execute j) \<and> k \<le> j \<and> j < k + length stmts \<and> committed c' = committed c"
proof (induction stmts arbitrary: k c)
  case Nil
  then show ?case by simp
next
  case (Cons stmt stmts)
  show ?case
  proof (cases "fails (Execute k)")
    case True
    with Cons.prems show ?thesis by simp
  next
    case False
    with Cons.prems have "run_statements fails (Suc k) stmts (execute stmt c) = Inl (j, c')"
      by simp
    from Cons.IH [OF this] show ?thesis by simp
  qed
qed

lemma length_static_statements: "length static_statements = 12"
  by (simp add: static_statements_def)

lemma try_block_Inr:
  assumes "try_block u fails c = Inr c'"
  shows "c' = \<lparr>committed = clean_steps u (view c), working = None\<rparr>
    \<and> (\<forall>j < execute_calls u (view c). \<not> fails (Execute j)) \<and> \<not> fails Commit"
proof -
  from assms obtain k c1 k' c2
    where r1: "run_statements fails 0 static_statements c = Inr (k, c1)"
      and sel: "\<not> fails (Execute k)"
      and r2: "run_statements fails (Suc k)
                 (ability_updates u (fetch_named_abilities (view c1))) c1 = Inr (k', c2)"
      and com: "\<not> fails Commit"
      and c': "c' = commit c2"
    by (auto simp: try_block_def split: sum.splits prod.splits if_splits)
  from run_statements_Inr [OF r1] have k: "k = 12"
    and v1: "view c1 = run_all static_statements (view c)"
    and no1: "\<forall>j. j < 12 \<longrightarrow> \<not> fails (Execute j)"
    by (simp_all add: length_static_statements)
  from run_statements_Inr [OF r2] k v1
  have k': "k' = execute_calls u (view c)"
    and v2: "view c2 = run_all (ability_updates u (fetch_named_abilities (view c1))) (view c1)"
    and no2: "\<forall>j. 13 \<le> j \<and> j < k' \<longrightarrow> \<not> fails (Execute j)"
    by (simp_all add: execute_calls_def)
  from v1 v2 have "view c2 = clean_steps u (view c)" by (simp add: clean_steps_def Let_def)
  with c' have "c' = \<lparr>committed = clean_steps u (view c), working = None\<rparr>"
    by (simp add: commit_def)
  moreover have "\<forall>j < execute_calls u (view c). \<not> fails (Execute j)"
  proof (intro allI impI)
    fix j assume "j < execute_calls u (view c)"
    with k' have "j < 12 \<or> j = 12 \<or> (13 \<le> j \<and> j < k')" by arith
    with no1 no2 sel k show "\<not> fails (Execute j)" by blast
  qed
  ultimately show ?thesis using com by simp
qed

lemma try_block_Inl:
  assumes "try_block u fails c = Inl (x, c')"
  shows "fails x \<and> (x = Commit \<or> (\<exists>j < execute_calls u (view c). x = Execute j))
    \<and> committed c' = committed c"
proof (cases "run_statements fails 0 static_statements c")
  case (Inl a)
  obtain j c0 where a: "a = (j, c0)" by (cases a)
  from run_statements_Inl [OF Inl [unfolded a]] assms Inl a
  show ?thesis by (auto simp: try_block_def execute_calls_def length_static_statements)
next
  case (Inr b)
  obtain k c1 where b: "b = (k, c1)" by (cases b)
  from run_statements_Inr [OF Inr [unfolded b]] have k: "k = 12"
    and v1: "view c1 = run_all static_statements (view c)"
    and co1: "committed c1 = committed c"
    by (simp_all add: length_static_statements)
  show ?thesis
  proof (cases "fails (Execute k)")
    case True
    with assms Inr b k co1 show ?thesis
      by (auto simp: try_block_def execute_calls_def)
  next
    case False
    show ?thesis
    proof (cases "run_statements fails (Suc k)
                    (ability_updates u (fetch_named_abilities (view c1))) c1")
      case (Inl a)
      obtain j c0 where a: "a = (j, c0)" by (cases a)
      from run_statements_Inl [OF Inl [unfolded a]] assms Inr b False Inl a k v1 co1
      show ?thesis by (auto simp: try_block_def execute_calls_def)
    next
      case (Inr b2)
      obtain k' c2 where b2: "b2 = (k', c2)" by (cases b2)
      from run_statements_Inr [OF Inr [unfolded b2]] co1
      have "committed c2 = committed c" by simp
      with assms \<open>run_statements fails 0 static_statements c = Inr b\<close> b False Inr b2
      show ?thesis by (auto simp: try_block_def split: if_splits)
    qed
  qed
qed

lemma rollback_eq: "rollback c = \<lparr>committed = committed c, working = None\<rparr>"
  by (cases c) (simp add: rollback_def)

text \<open>
  C8 (as amended). \<^verbatim>\<open>clean_database\<close> on a connection, case by case. When
  \<^verbatim>\<open>conn.cursor()\<close> raises, the error leaves the function and the connection is
  untouched. When none of the calls of the pass raises, the function returns and the
  database is the cleaned one. When a \<^verbatim>\<open>cursor.execute\<close> of the pass or \<^verbatim>\<open>conn.commit()\<close>
  raises and the rollback does not, the function returns normally, the database is
  exactly the one before the pass, no transaction is left open, and the error of a
  raising call has been printed, not reported. When the rollback raises too, its error
  leaves the function, and the database is still the one before the pass.
\<close>

theorem clean_database_all_or_nothing:
  "(fails Cursor \<longrightarrow>
      result (clean_database u fails (Some c)) = Raises Cursor
      \<and> conn_after (clean_database u fails (Some c)) = Some c)
   \<and> (\<not> fails Cursor \<and> (\<forall>j < execute_calls u (view c). \<not> fails (Execute j))
       \<and> \<not> fails Commit \<longrightarrow>
      result (clean_database u fails (Some c)) = Returns_None
      \<and> conn_after (clean_database u fails (Some c))
          = Some \<lparr>committed = clean_steps u (view c), working = None\<rparr>)
   \<and> (\<not> fails Cursor
       \<and> ((\<exists>j < execute_calls u (view c). fails (Execute j)) \<or> fails Commit)
       \<and> \<not> fails Rollback \<longrightarrow>
      result (clean_database u fails (Some c)) = Returns_None
      \<and> conn_after (clean_database u fails (Some c))
          = Some \<lparr>committed = committed c, working = None\<rparr>
      \<and> (\<exists>x. fails x
            \<and> printed (clean_database u fails (Some c))
                = [Plain ''Starting database cleaning...'',
                   With_cause ''An error occurred during database cleaning: '' x]))
   \<and> (\<not> fails Cursor
       \<and> ((\<exists>j < execute_calls u (view c). fails (Execute j)) \<or> fails Commit)
       \<and> fails Rollback \<longrightarrow>
      result (clean_database u fails (Some c)) = Raises Rollback
      \<and> (\<exists>c'. conn_after (clean_database u fails (Some c)) = Some c'
            \<and> committed c' = committed c))"
proof (cases "fails Cursor")
  case True
  then show ?thesis by (simp add: clean_database_def)
next
  case False
  show ?thesis
  proof (cases "try_block u fails c")
    case (Inl a)
    obtain x c' where a: "a = (x, c')" by (cases a)
    from try_block_Inl [OF Inl [unfolded a]] have x: "fails x"
      and co: "committed c' = committed c"
      and "x = Commit \<or> (\<exists>j < execute_calls u (view c). x = Execute j)"
      by simp_all
    with x have failed: "(\<exists>j < execute_calls u (view c). fails (Execute j)) \<or> fails Commit"
      by auto
    show ?thesis
    proof (cases "fails Rollback")
      case True
      with False Inl a x co failed show ?thesis by (auto simp: clean_database_def)
    next
      case no_rb: False
      with False Inl a x co failed show ?thesis
        by (auto simp: clean_database_def rollback_eq)
    qed
  next
    case (Inr c')
    from try_block_Inr [OF Inr] False Inr show ?thesis
      by (auto simp: clean_database_def)
  qed
qed

text \<open>
  On a fresh connection to \<open>seed_example\<close>: a pass without failure is committed; a pass
  whose call 8 (the re-pointing of \<^verbatim>\<open>type2_id\<close>) raises is rolled back; when the
  rollback raises as well its error leaves the function; so does the error of
  \<^verbatim>\<open>conn.cursor()\<close>.
\<close>

theorem clean_database_all_or_nothing_witness:
  "conn_after (clean_database no_unicode (\<lambda>x. False)
                 (Some \<lparr>committed = seed_example, working = None\<rparr>))
     = Some \<lparr>committed = clean_steps no_unicode seed_example, working = None\<rparr>
   \<and> 8 < execute_calls no_unicode seed_example
   \<and> conn_after (clean_database no_unicode (\<lambda>x. x = Execute 8)
                   (Some \<lparr>committed = seed_example, working = None\<rparr>))
       = Some \<lparr>committed = seed_example, working = None\<rparr>
   \<and> result (clean_database no_unicode (\<lambda>x. x = Execute 8)
                (Some \<lparr>committed = seed_example, working = None\<rparr>)) = Returns_None
   \<and> result (clean_database no_unicode (\<lambda>x. x = Execute 8 \<or> x = Rollback)
                (Some \<lparr>committed = seed_example, working = None\<rparr>)) = Raises Rollback
   \<and> result (clean_database no_unicode (\<lambda>x. x = Cursor)
                (Some \<lparr>committed = seed_example, working = None\<rparr>)) = Raises Cursor"
proof -
  let ?c = "\<lparr>committed = seed_example, working = None\<rparr>"
  have v: "view ?c = seed_example" by (simp add: view_def)
  have n: "8 < execute_calls no_unicode seed_example" by (simp add: execute_calls_def)
  from clean_database_all_or_nothing [of "\<lambda>x. False" no_unicode ?c]
  have "conn_after (clean_database no_unicode (\<lambda>x. False) (Some ?c))
        = Some \<lparr>committed = clean_steps no_unicode seed_example, working = None\<rparr>"
    by (simp add: v)
  moreover from clean_database_all_or_nothing [of "\<lambda>x. x = Execute 8" no_unicode ?c] n
  have "result (clean_database no_unicode (\<lambda>x. x = Execute 8) (Some ?c)) = Returns_None
        \<and> conn_after (clean_database no_unicode (\<lambda>x. x = Execute 8) (Some ?c)) = Some ?c"
    by (simp add: v)
  moreover
  from clean_database_all_or_nothing [of "\<lambda>x. x = Execute 8 \<or> x = Rollback" no_unicode ?c] n
  have "result (clean_database no_unicode (\<lambda>x. x = Execute 8 \<or> x = Rollback) (Some ?c))
        = Raises Rollback"
    by (simp add: v)
  moreover from clean_database_all_or_nothing [of "\<lambda>x. x = Cursor" no_unicode ?c]
  have "result (clean_database no_unicode (\<lambda>x. x = Cursor) (Some ?c)) = Raises Cursor"
    by simp
  ultimately show ?thesis using n by simp
qed

text \<open>
  C8 as stated fails in its report: when call 8 raises, the caller gets the same
  \<^verbatim>\<open>None\<close> as after a successful pass. The eight statements before it have run in the
  open transaction, where the type names are title-cased already; the rollback undoes
  them, and the error is on the standard output only.
\<close>

theorem failed_cleaning_returns_normally:
  "result (clean_database no_unicode (\<lambda>x. x = Execute 8)
             (Some \<lparr>committed = seed_example, working = None\<rparr>)) = Returns_None
   \<and> result (clean_database no_unicode (\<lambda>x. False)
                (Some \<lparr>committed = seed_example, working = None\<rparr>)) = Returns_None
   \<and> map nname (types (view (snd (projl
        (try_block no_unicode (\<lambda>x. x = Execute 8)
           \<lparr>committed = seed_example, working = None\<rparr>)))))
       = [Some ''Fire'', Some ''Fire'']
   \<and> working (snd (projl (try_block no_unicode (\<lambda>x. x = Execute 8)
                             \<lparr>committed = seed_example, working = None\<rparr>))) \<noteq> None
   \<and> conn_after (clean_database no_unicode (\<lambda>x. x = Execute 8)
                   (Some \<lparr>committed = seed_example, working = None\<rparr>))
       = Some \<lparr>committed = seed_example, working = None\<rparr>
   \<and> printed (clean_database no_unicode (\<lambda>x. x = Execute 8)
                 (Some \<lparr>committed = seed_example, working = None\<rparr>))
       = [Plain ''Starting database cleaning...'',
          With_cause ''An error occurred during database cleaning: '' (Execute 8)]"
  by code_simp

section \<open>Reading\<close>

text \<open>
  What the four \<^verbatim>\<open>SELECT\<close> statements compute. Three of them compare with
  \<^verbatim>\<open>COLLATE NOCASE\<close>: their result depends on the argument up to the case of its letters
  only. Creatures-by-type finds a creature through either type slot, provided the first
  slot refers to a type row (the join on \<^verbatim>\<open>type1_id\<close> is an inner join).
\<close>

lemma nocase_eq_cong: "LOWER x = LOWER y \<Longrightarrow> nocase_eq col x = nocase_eq col y"
  by (simp add: nocase_eq_def split: option.splits)

lemma by_type_nocase:
  "LOWER x = LOWER y \<Longrightarrow> select_pokemon_by_type s x = select_pokemon_by_type s y"
proof -
  assume "LOWER x = LOWER y"
  then have "\<And>col. nocase_eq col x = nocase_eq col y" by (rule nocase_eq_cong)
  then show ?thesis by (simp add: select_pokemon_by_type_def cong: if_cong)
qed

lemma by_ability_nocase:
  "LOWER x = LOWER y \<Longrightarrow> select_pokemon_by_ability s x = select_pokemon_by_ability s y"
proof -
  assume "LOWER x = LOWER y"
  then have "\<And>col. nocase_eq col x = nocase_eq col y" by (rule nocase_eq_cong)
  then show ?thesis by (simp add: select_pokemon_by_ability_def cong: if_cong)
qed

lemma abilities_by_pokemon_nocase:
  "LOWER x = LOWER y \<Longrightarrow> select_abilities_by_pokemon s x = select_abilities_by_pokemon s y"
proof -
  assume "LOWER x = LOWER y"
  then have "\<And>col. nocase_eq col x = nocase_eq col y" by (rule nocase_eq_cong)
  then show ?thesis by (simp add: select_abilities_by_pokemon_def cong: if_cong)
qed

lemma left_join_types_mem:
  "t2 \<in> set ts \<Longrightarrow> ref = Some (nid t2) \<Longrightarrow> nname t2 \<in> set (left_join_types ts ref)"
proof -
  assume "t2 \<in> set ts" and "ref = Some (nid t2)"
  then have "t2 \<in> set (filter (\<lambda>t. ref = Some (nid t)) ts)" by simp
  then show ?thesis by (cases "filter (\<lambda>t. ref = Some (nid t)) ts") (auto simp: left_join_types_def)
qed

lemma left_join_types_not_Nil: "left_join_types ts ref \<noteq> []"
  by (simp add: left_join_types_def split: list.splits)

lemma by_type_finds_type1:
  assumes "p \<in> set (pokemon s)" and "t1 \<in> set (types s)" and "type1_id p = Some (nid t1)"
    and "nocase_eq (nname t1) x"
  shows "pname p \<in> set (select_pokemon_by_type s x)"
proof -
  from left_join_types_not_Nil obtain n where "n \<in> set (left_join_types (types s) (type2_id p))"
    by (meson last_in_set)
  with assms show ?thesis
    by (auto simp: select_pokemon_by_type_def)
qed

lemma by_type_finds_type2:
  assumes "p \<in> set (pokemon s)" and "t1 \<in> set (types s)" and "type1_id p = Some (nid t1)"
    and "t2 \<in> set (types s)" and "type2_id p = Some (nid t2)" and "nocase_eq (nname t2) x"
  shows "pname p \<in> set (select_pokemon_by_type s x)"
proof -
  from assms(4,5) have "nname t2 \<in> set (left_join_types (types s) (type2_id p))"
    by (rule left_join_types_mem)
  with assms show ?thesis
    by (fastforce simp: select_pokemon_by_type_def)
qed

lemma by_ability_no_match:
  "\<forall>a \<in> set (abilities s). \<not> nocase_eq (nname a) x \<Longrightarrow> select_pokemon_by_ability s x = []"
  by (auto simp: select_pokemon_by_ability_def)

text \<open>
  With a cursor that can be entered a read handler returns the selected rows, an empty
  list when there are none; with the cursor of \<^verbatim>\<open>sqlite3\<close> it raises before any
  statement runs.
\<close>

lemma read_handler_context:
  "read_handler select Context_Cursor (Database s) x = Inr (select s x)"
  by (simp add: read_handler_def Let_def)

lemma read_handler_sqlite3:
  "read_handler select Sqlite3_Cursor (Database s) x = Inl TypeError"
  by (simp add: read_handler_def)

text \<open>
  C5 at a failing input. On \<open>cleaned_example\<close> the trainer \<^verbatim>\<open>Ash\<close> owns \<^verbatim>\<open>Pikachu\<close>. The
  statement of trainers-by-creature (line 231) compares the creature name without
  \<^verbatim>\<open>COLLATE NOCASE\<close>: it finds the trainer for \<^verbatim>\<open>Pikachu\<close> and nothing for \<^verbatim>\<open>pikachu\<close>.
  The statement of creatures-by-type does find \<^verbatim>\<open>Pikachu\<close> for \<^verbatim>\<open>eLeCtRiC\<close>, but the
  handler around it raises \<^verbatim>\<open>TypeError\<close> on entering the cursor.
\<close>

theorem trainers_by_pokemon_case_sensitive:
  "select_trainers_by_pokemon cleaned_example ''Pikachu'' = [Some ''Ash'']
   \<and> select_trainers_by_pokemon cleaned_example ''pikachu'' = []
   \<and> get_trainers_by_pokemon Context_Cursor (Database cleaned_example) ''pikachu'' = Inr []
   \<and> select_pokemon_by_type cleaned_example ''eLeCtRiC'' = [Some ''Pikachu'']
   \<and> get_pokemon_by_type Sqlite3_Cursor (Database cleaned_example) ''eLeCtRiC'' = Inl TypeError"
  by code_simp

text \<open>
  C6 at a failing input. No ability of \<open>cleaned_example\<close> is named \<^verbatim>\<open>overgrow\<close>, so the
  statement of creatures-by-ability selects no row; the handler does not get that far:
  the request ends with the \<^verbatim>\<open>TypeError\<close> of the cursor. The same holds for the other
  three read handlers.
\<close>

theorem no_match_raises:
  "select_pokemon_by_ability cleaned_example ''overgrow'' = []
   \<and> get_pokemon_by_ability Sqlite3_Cursor (Database cleaned_example) ''overgrow'' = Inl TypeError
   \<and> get_pokemon_by_type Sqlite3_Cursor (Database cleaned_example) ''water'' = Inl TypeError
   \<and> get_trainers_by_pokemon Sqlite3_Cursor (Database cleaned_example) ''Mew'' = Inl TypeError
   \<and> get_abilities_by_pokemon Sqlite3_Cursor (Database cleaned_example) ''Mew'' = Inl TypeError"
  by code_simp

section \<open>Ingestion\<close>

text \<open>
  What the statements of the ingestion leave alone: \<^verbatim>\<open>get_or_create_type\<close> changes
  nothing or appends one type row whose name no row has; the loop over the abilities
  appends ability rows and join rows, the latter only for a key no join row has.
\<close>

lemma get_or_create_type_cases:
  assumes "get_or_create_type t s = (i, s')"
  shows "s' = s \<or> (\<exists>n. filter (\<lambda>t. nname t = Some n) (types s) = []
           \<and> s' = s\<lparr>types := types s @ [\<lparr>nid = next_id (map nid (types s)), nname = Some n\<rparr>]\<rparr>)"
proof (cases t)
  case None
  with assms show ?thesis by (simp add: get_or_create_type_def)
next
  case (Some n)
  show ?thesis
  proof (cases "n = []")
    case True
    with assms Some show ?thesis by (simp add: get_or_create_type_def)
  next
    case False
    show ?thesis
    proof (cases "filter (\<lambda>t. nname t = Some n) (types s)")
      case Nil
      with assms Some False
      have "s' = s\<lparr>types := types s @ [\<lparr>nid = next_id (map nid (types s)), nname = Some n\<rparr>]\<rparr>"
        by (simp add: get_or_create_type_def Let_def)
      with Nil show ?thesis by blast
    next
      case (Cons row rest)
      with assms Some False show ?thesis by (simp add: get_or_create_type_def)
    qed
  qed
qed

lemma get_or_create_type_frame:
  assumes "get_or_create_type t s = (i, s')"
  shows "pokemon s' = pokemon s \<and> trainers s' = trainers s \<and> abilities s' = abilities s
   \<and> trainer_pokemon_abilities s' = trainer_pokemon_abilities s"
  using get_or_create_type_cases [OF assms] by auto

lemma get_or_create_type_names:
  assumes "get_or_create_type t s = (i, s')" and "distinct (map nname (types s))"
  shows "distinct (map nname (types s'))"
  using get_or_create_type_cases [OF assms(1)]
proof
  assume "s' = s"
  with assms(2) show ?thesis by simp
next
  assume "\<exists>n. filter (\<lambda>t. nname t = Some n) (types s) = []
           \<and> s' = s\<lparr>types := types s @ [\<lparr>nid = next_id (map nid (types s)), nname = Some n\<rparr>]\<rparr>"
  then obtain n where n: "filter (\<lambda>t. nname t = Some n) (types s) = []"
    and s': "s' = s\<lparr>types := types s @ [\<lparr>nid = next_id (map nid (types s)), nname = Some n\<rparr>]\<rparr>"
    by blast
  from n have "Some n \<notin> nname ` set (types s)"
    by (auto simp: filter_empty_conv)
  with assms(2) s' show ?thesis by simp
qed

lemma insert_or_ignore_ability_frame:
  "pokemon (insert_or_ignore_ability u a s) = pokemon s
   \<and> trainers (insert_or_ignore_ability u a s) = trainers s
   \<and> types (insert_or_ignore_ability u a s) = types s
   \<and> trainer_pokemon_abilities (insert_or_ignore_ability u a s) = trainer_pokemon_abilities s"
  by (simp add: insert_or_ignore_ability_def)

lemma add_abilities_frame:
  "add_abilities u tr pk names s ins = Inr (s', ins') \<Longrightarrow>
   pokemon s' = pokemon s \<and> trainers s' = trainers s \<and> types s' = types s
   \<and> (join_keys_unique s \<longrightarrow> join_keys_unique s')"
proof (induction names arbitrary: s ins)
  case Nil
  then show ?case by simp
next
  case (Cons a names)
  let ?s1 = "insert_or_ignore_ability u a s"
  note frame = insert_or_ignore_ability_frame [of u a s]
  from Cons.prems obtain row rest
    where found: "filter (\<lambda>r. nname r = Some a) (abilities ?s1) = row # rest"
    by (cases "filter (\<lambda>r. nname r = Some a) (abilities ?s1)") (simp_all add: Let_def)
  let ?present = "filter (\<lambda>r. trainer_id r = Some tr \<and> pokemon_id r = Some pk
                         \<and> ability_id r = Some (nid row)) (trainer_pokemon_abilities ?s1)"
  show ?case
  proof (cases "?present = []")
    case True
    let ?new = "\<lparr>jid = next_id (map jid (trainer_pokemon_abilities ?s1)), trainer_id = Some tr,
                 pokemon_id = Some pk, ability_id = Some (nid row)\<rparr>"
    let ?s2 = "?s1\<lparr>trainer_pokemon_abilities := trainer_pokemon_abilities ?s1 @ [?new]\<rparr>"
    from Cons.prems found True
    have rec: "add_abilities u tr pk names ?s2
                 (ins @ [next_id (map jid (trainer_pokemon_abilities ?s1))]) = Inr (s', ins')"
      by (simp add: Let_def)
    from True have "tpa_key ?new \<notin> tpa_key ` set (trainer_pokemon_abilities ?s1)"
      by (auto simp: filter_empty_conv tpa_key_def)
    then have "join_keys_unique s \<longrightarrow> join_keys_unique ?s2"
      using frame by (simp add: join_keys_unique_def)
    with Cons.IH [OF rec] frame show ?thesis by simp
  next
    case False
    from Cons.prems found False
    have rec: "add_abilities u tr pk names ?s1 ins = Inr (s', ins')"
      by (simp add: Let_def)
    from Cons.IH [OF rec] frame show ?thesis by (simp add: join_keys_unique_def)
  qed
qed

text \<open>The two rejections of lines 267-274, when the statements run.\<close>

lemma ingest_already_exists:
  "p \<in> set (pokemon s) \<Longrightarrow> pname p = Some name \<Longrightarrow>
   ingest_statements u api pick name s
   = Inl (HTTPException 400 ''Pokemon already exists in the database.'')"
  by (auto simp: ingest_statements_def filter_empty_conv)

lemma ingest_not_found:
  "\<forall>p \<in> set (pokemon s). pname p \<noteq> Some name \<Longrightarrow> api name = Status_other \<Longrightarrow>
   ingest_statements u api pick name s = Inl (HTTPException 404 ''Pokemon not found in PokeAPI.'')"
  by (auto simp: ingest_statements_def filter_empty_conv)

lemma ingest_statements_preserves:
  assumes "ingest_statements u api pick name s = Inr (resp, s')"
  shows "trainers s' = trainers s
    \<and> (creature_keys_unique s \<longrightarrow> creature_keys_unique s')
    \<and> (join_keys_unique s \<longrightarrow> join_keys_unique s')
    \<and> (distinct (map nname (types s)) \<longrightarrow> distinct (map nname (types s')))"
proof -
  from assms have absent: "filter (\<lambda>p. pname p = Some name) (pokemon s) = []"
    by (simp add: ingest_statements_def split: if_splits)
  from assms absent obtain data where data: "api name = Status_200 data"
    by (cases "api name") (simp_all add: ingest_statements_def)
  let ?type1 = "if length (api_types data) > 0 then Some (api_types data ! 0) else None"
  let ?type2 = "if length (api_types data) > 1 then Some (api_types data ! 1) else None"
  obtain t1 s1 where g1: "get_or_create_type ?type1 s = (t1, s1)" by (cases "get_or_create_type ?type1 s")
  obtain t2 s2 where g2: "get_or_create_type ?type2 s1 = (t2, s2)" by (cases "get_or_create_type ?type2 s1")
  note f1 = get_or_create_type_frame [OF g1]
  note f2 = get_or_create_type_frame [OF g2]
  from f1 f2 absent have absent2: "filter (\<lambda>p. pname p = Some name) (pokemon s2) = []" by simp
  let ?new = "\<lparr>pid = next_id (map pid (pokemon s2)), pname = Some name,
               type1_id = t1, type2_id = t2\<rparr>"
  let ?s3 = "s2\<lparr>pokemon := pokemon s2 @ [?new]\<rparr>"
  from assms absent data g1 g2 absent2 obtain inserted
    where loop: "add_abilities u (nid (trainers ?s3 ! (pick mod length (trainers ?s3))))
                   (next_id (map pid (pokemon s2))) (api_abilities data) ?s3 [] = Inr (s', inserted)"
    by (auto simp: ingest_statements_def Let_def split: if_splits sum.splits)
  note f3 = add_abilities_frame [OF loop]
  have "trainers s' = trainers s" using f1 f2 f3 by simp
  moreover have "creature_keys_unique s \<longrightarrow> creature_keys_unique s'"
  proof
    assume u: "creature_keys_unique s"
    from absent have "pokemon_key ?new \<notin> pokemon_key ` set (pokemon s)"
      by (auto simp: filter_empty_conv pokemon_key_def)
    with u f1 f2 f3 show "creature_keys_unique s'"
      by (simp add: creature_keys_unique_def)
  qed
  moreover have "join_keys_unique s \<longrightarrow> join_keys_unique s'"
    using f1 f2 f3 by (simp add: join_keys_unique_def)
  moreover have "distinct (map nname (types s)) \<longrightarrow> distinct (map nname (types s'))"
  proof
    assume "distinct (map nname (types s))"
    from get_or_create_type_names [OF g2 get_or_create_type_names [OF g1 this]]
    show "distinct (map nname (types s'))" using f3 by simp
  qed
  ultimately show ?thesis by simp
qed

lemma handler_error_keeps_file:
  "add_trainer_pokemon_abilities cur u api pick file name = (Inl e, file') \<Longrightarrow> file' = file"
  by (auto simp: add_trainer_pokemon_abilities_def split: option.splits cursor_kind.splits
      sum.splits)

text \<open>
  Whatever the cursor, the schema, the lookup service and the draw of the trainer are,
  a request to the ingestion handler leaves the trainer rows as they are and keeps the
  keys of the creature rows and of the join rows distinct, and the type names distinct
  as they are spelled.
\<close>

lemma ingest_preserves_keys:
  assumes "add_trainer_pokemon_abilities cur u api pick (Database s) name = (r, file')"
  shows "\<exists>s'. file' = Database s'
    \<and> trainers s' = trainers s
    \<and> (creature_keys_unique s \<longrightarrow> creature_keys_unique s')
    \<and> (join_keys_unique s \<longrightarrow> join_keys_unique s')
    \<and> (distinct (map nname (types s)) \<longrightarrow> distinct (map nname (types s')))"
proof (cases r)
  case (Inl e)
  with assms have "file' = Database s" by (auto dest: handler_error_keeps_file)
  then show ?thesis by simp
next
  case (Inr resp)
  with assms obtain s' where s': "file' = Database s'"
    and run: "ingest_statements u api pick name s = Inr (resp, s')"
    by (auto simp: add_trainer_pokemon_abilities_def split: cursor_kind.splits sum.splits)
  from ingest_statements_preserves [OF run] s' show ?thesis
    by simp
qed




text \<open>
  Behind the failure at line 266 the statements of the ingestion would not keep the
  other invariants: the lookup service spells its names in lower case,
  \<^verbatim>\<open>get_or_create_type\<close> looks for exactly that spelling (line 285) and inserts it as it
  is (line 289), and line 314 does the same for the ability. Run on \<open>cleaned_example\<close>,
  they put \<^verbatim>\<open>electric\<close> beside \<^verbatim>\<open>Electric\<close> and \<^verbatim>\<open>static\<close> beside \<^verbatim>\<open>Static\<close>.
\<close>

lemma ingest_statements_store_raw_names:
  "data_model_invariants cleaned_example
   \<and> fst (get_or_create_type (Some ''electric'') cleaned_example) = Some 2
   \<and> types (snd (get_or_create_type (Some ''electric'') cleaned_example))
       = [\<lparr>nid = 1, nname = Some ''Electric''\<rparr>, \<lparr>nid = 2, nname = Some ''electric''\<rparr>]
   \<and> ingest_statements False raichu_api 0 ''raichu'' cleaned_example
       = Inr (\<lparr>message = ''Abilities for raichu added successfully.'', inserted_ids = [2]\<rparr>,
              cleaned_plus_raichu)
   \<and> ingest_statements True raichu_api 0 ''raichu'' cleaned_example
       = Inr (\<lparr>message = ''Abilities for raichu added successfully.'', inserted_ids = [2]\<rparr>,
              cleaned_plus_raichu)
   \<and> \<not> names_unique_nocase (types cleaned_plus_raichu)
   \<and> \<not> type_names_canonical cleaned_plus_raichu
   \<and> \<not> names_unique_nocase (abilities cleaned_plus_raichu)
   \<and> \<not> ability_names_canonical cleaned_plus_raichu"
  by code_simp

lemma ingest_context_rejected:
  "ingest_statements u api pick name s = Inl e \<Longrightarrow>
   add_trainer_pokemon_abilities Context_Cursor u api pick (Database s) name = (Inl e, Database s)"
  by (simp add: add_trainer_pokemon_abilities_def)

text \<open>
  C4 at a failing input: \<^verbatim>\<open>raichu\<close> is not in \<open>cleaned_example\<close>, the lookup service
  answers with the abilities \<^verbatim>\<open>["static"]\<close> and the types \<^verbatim>\<open>["electric"]\<close>, and the request
  ends with the status 500 and an unchanged database, with or without a uniqueness
  constraint on the ability names.
\<close>

theorem ingest_of_new_creature_fails:
  "add_trainer_pokemon_abilities Sqlite3_Cursor False raichu_api 0 (Database cleaned_example)
     ''raichu''
   = (Inl (HTTPException 500 ''Internal server error.''), Database cleaned_example)
   \<and> add_trainer_pokemon_abilities Sqlite3_Cursor True raichu_api 0 (Database cleaned_example)
     ''raichu''
   = (Inl (HTTPException 500 ''Internal server error.''), Database cleaned_example)
   \<and> filter (\<lambda>p. pname p = Some ''raichu'') (pokemon cleaned_example) = []
   \<and> raichu_api ''raichu''
       = Status_200 \<lparr>api_abilities = [''static''], api_types = [''electric'']\<rparr>"
  by code_simp

text \<open>
  The statements themselves, had they run, would not always insert a join row either:
  the cleaned \<open>dangling_example\<close> keeps the join row 2, which refers to the deleted
  creature 2 and the deleted ability 2; the new creature and the new ability get these
  very identifiers, the join row is found to exist, and \<^verbatim>\<open>inserted_ids\<close> is empty.
\<close>

lemma ingest_adopts_dangling_join_row:
  "clean_steps un dangling_example
   = \<lparr>types = [\<lparr>nid = 1, nname = Some ''Electric''\<rparr>],
      abilities = [\<lparr>nid = 1, nname = Some ''Static''\<rparr>],
      pokemon = [\<lparr>pid = 1, pname = Some ''Pikachu'', type1_id = Some 1, type2_id = None\<rparr>],
      trainers = [\<lparr>nid = 1, nname = Some ''Ash''\<rparr>],
      trainer_pokemon_abilities =
        [\<lparr>jid = 1, trainer_id = Some 1, pokemon_id = Some 1, ability_id = Some 1\<rparr>,
         \<lparr>jid = 2, trainer_id = Some 1, pokemon_id = Some 2, ability_id = Some 2\<rparr>]\<rparr>
   \<and> ingest_statements False raichu_api 0 ''raichu'' (clean_steps un dangling_example)
       = Inr (\<lparr>message = ''Abilities for raichu added successfully.'', inserted_ids = []\<rparr>,
              cleaned_plus_raichu)"
  by code_simp

text \<open>
  C7 at a failing input: \<^verbatim>\<open>Pikachu\<close> is in \<open>cleaned_example\<close> and the lookup service does
  not know \<^verbatim>\<open>mew\<close>. The statements would reject the two names with the status 400 and
  404; the handler answers 500 to both. Nothing is written in either case.
\<close>

theorem ingest_rejections_become_500:
  "filter (\<lambda>p. pname p = Some ''Pikachu'') (pokemon cleaned_example) \<noteq> []
   \<and> ingest_statements False raichu_api 0 ''Pikachu'' cleaned_example
       = Inl (HTTPException 400 ''Pokemon already exists in the database.'')
   \<and> add_trainer_pokemon_abilities Sqlite3_Cursor False raichu_api 0 (Database cleaned_example)
        ''Pikachu''
       = (Inl (HTTPException 500 ''Internal server error.''), Database cleaned_example)
   \<and> raichu_api ''mew'' = Status_other
   \<and> ingest_statements False raichu_api 0 ''mew'' cleaned_example
       = Inl (HTTPException 404 ''Pokemon not found in PokeAPI.'')
   \<and> add_trainer_pokemon_abilities Sqlite3_Cursor False raichu_api 0 (Database cleaned_example)
        ''mew''
       = (Inl (HTTPException 500 ''Internal server error.''), Database cleaned_example)"
  by code_simp

end
